theory Spec2Isabelle
  imports Main
begin

section \<open>JavaScript values: thrown values, promises, truthiness\<close>

text \<open>
  A value caught by a \<^verbatim>\<open>catch\<close> block. The source tests every caught value with
  \<^verbatim>\<open>err instanceof Error ? err.message : '<default>'\<close>, and one handler reads
  \<^verbatim>\<open>error.message\<close> without that test, so three kinds are told apart: an \<^verbatim>\<open>Error\<close>
  instance with its message; a value that is no \<^verbatim>\<open>Error\<close> and has no \<^verbatim>\<open>message\<close>
  property (a string, a number); and \<^verbatim>\<open>null\<close> or \<^verbatim>\<open>undefined\<close>, on which reading
  \<^verbatim>\<open>.message\<close> throws a \<^verbatim>\<open>TypeError\<close>.
\<close>

datatype thrown = ErrorObj string | NonError | Nullish

fun thrown_message :: "string \<Rightarrow> thrown \<Rightarrow> string" where
  "thrown_message dflt (ErrorObj m) = m"
| "thrown_message dflt NonError = dflt"
| "thrown_message dflt Nullish = dflt"

text \<open>
  The outcome of awaiting a promise: it is fulfilled with a value, it is rejected with a
  thrown value, or it never settles (the case the source's own comments call "hanging":
  \<^verbatim>\<open>// Create a timeout promise to prevent hanging\<close>). An \<^verbatim>\<open>async\<close> function of the
  source is a function to a world and such an outcome: \<open>Pending\<close> says that the function's
  own promise never settles, and the world is the one it left behind.
\<close>

datatype 'a promise = Fulfilled 'a | Rejected thrown | Pending

text \<open>
  \<^verbatim>\<open>Promise.race([operation, timeoutPromise])\<close> where the timer rejects with
  \<^verbatim>\<open>new Error(msg)\<close> after \<open>limit\<close> milliseconds. The operation is given with the time
  (in ms) at which it settles; the time of a promise that never settles is ignored. The
  source creates the timer before it starts the operation, and a tie (the operation
  settling at exactly \<open>limit\<close> ms) is given to the timer here; the properties below are
  stated for operations that settle before the limit, after it, or never.
\<close>

fun race_timeout :: "nat \<Rightarrow> string \<Rightarrow> nat \<times> 'a promise \<Rightarrow> 'a promise" where
  "race_timeout limit msg (t, Pending) = Rejected (ErrorObj msg)"
| "race_timeout limit msg (t, Fulfilled v) =
     (if t < limit then Fulfilled v else Rejected (ErrorObj msg))"
| "race_timeout limit msg (t, Rejected e) =
     (if t < limit then Rejected e else Rejected (ErrorObj msg))"

text \<open>
  Truthiness of a \<^verbatim>\<open>string | null | undefined\<close> value: \<^verbatim>\<open>null\<close>, \<^verbatim>\<open>undefined\<close> and the
  empty string are falsy. \<open>or_undefined x\<close> is \<^verbatim>\<open>x || undefined\<close>, \<open>or_else x y\<close> is
  \<^verbatim>\<open>x || y\<close>.
\<close>

fun truthy :: "string option \<Rightarrow> bool" where
  "truthy None = False"
| "truthy (Some s) = (s \<noteq> [])"

definition or_undefined :: "string option \<Rightarrow> string option" where
  "or_undefined x = (if truthy x then x else None)"

definition or_else :: "string option \<Rightarrow> string option \<Rightarrow> string option" where
  "or_else x y = (if truthy x then x else y)"

definition or_empty :: "string option \<Rightarrow> string" where
  "or_empty x = (case x of None \<Rightarrow> [] | Some s \<Rightarrow> s)"

section \<open>Strings: the operations of \<^verbatim>\<open>isLikelyAuthenticated\<close>\<close>

text \<open>\<^verbatim>\<open>s.split(c)\<close> for a one-character separator: the empty string splits to \<^verbatim>\<open>['']\<close>.\<close>

fun str_split :: "char \<Rightarrow> string \<Rightarrow> string list" where
  "str_split c [] = [[]]"
| "str_split c (x # xs) =
     (if x = c then [] # str_split c xs
      else (case str_split c xs of
              [] \<Rightarrow> [[x]]
            | p # ps \<Rightarrow> (x # p) # ps))"

text \<open>
  \<^verbatim>\<open>s.trim()\<close>. A string here is a list of 8-bit characters, read as the code units
  U+0000 to U+00FF; the white space and line terminators of ECMAScript in that range are
  tab, line feed, vertical tab, form feed, carriage return, space and the no-break space
  U+00A0. (Its other white space, from U+1680 on, lies outside the strings of this model.)
\<close>

definition js_whitespace :: "char \<Rightarrow> bool" where
  "js_whitespace c =
     (c = CHR '' '' \<or> c = CHR 0x09 \<or> c = CHR 0x0A \<or> c = CHR 0x0B \<or> c = CHR 0x0C \<or> c = CHR 0x0D
      \<or> c = CHR 0xA0)"

definition str_trim :: "string \<Rightarrow> string" where
  "str_trim s = rev (dropWhile js_whitespace (rev (dropWhile js_whitespace s)))"

definition str_startsWith :: "string \<Rightarrow> string \<Rightarrow> bool" where
  "str_startsWith s p = (take (length p) s = p)"

fun str_includes :: "string \<Rightarrow> string \<Rightarrow> bool" where
  "str_includes [] p = str_startsWith [] p"
| "str_includes (x # xs) p = (str_startsWith (x # xs) p \<or> str_includes xs p)"

section \<open>Data model (\<^verbatim>\<open>auth.ts\<close>, \<^verbatim>\<open>auth-store.ts\<close>)\<close>

text \<open>\<^verbatim>\<open>AuthUser = { id; email; name?; businessId? }\<close> and
  \<^verbatim>\<open>AuthError = { message; status? }\<close>.\<close>

record AuthUser =
  user_id :: string
  user_email :: string
  user_name :: "string option"
  user_businessId :: "string option"

record AuthError =
  err_message :: string
  err_status :: "nat option"

text \<open>\<^verbatim>\<open>AuthResult<T> = { data: T; error: AuthError | null }\<close>.\<close>

record 'd AuthResult =
  res_data :: 'd
  res_error :: "AuthError option"

text \<open>
  What the remote gateway answers: a user record (\<^verbatim>\<open>session.user\<close>, whose \<^verbatim>\<open>email\<close> and
  \<^verbatim>\<open>user_metadata\<close> fields may be missing), a session (which always holds its user), an
  error \<^verbatim>\<open>{ message, status? }\<close>, and the response shape \<^verbatim>\<open>{ data, error }\<close>.
\<close>

record GwUser =
  gw_id :: string
  gw_email :: "string option"
  gw_meta_name :: "string option"
  gw_meta_business_id :: "string option"

record Session =
  session_user :: GwUser

record GwError =
  gw_message :: string
  gw_status :: "nat option"

record 'd GwResponse =
  gw_data :: 'd
  gw_error :: "GwError option"

text \<open>\<^verbatim>\<open>{ user: User | null; session: Session | null }\<close>.\<close>

record UserSession =
  us_user :: "GwUser option"
  us_session :: "Session option"

text \<open>The state machine of \<^verbatim>\<open>auth-store.ts\<close>: the five statuses and the five state fields.\<close>

datatype AuthStatus = Initializing | Unauthenticated | Authenticating | Authenticated | SigningOut

record AuthState =
  status :: AuthStatus
  user :: "AuthUser option"
  businessId :: "string option"
  error :: "AuthError option"
  isLoading :: bool

text \<open>The calls that go to the remote gateway over the network.\<close>

datatype GatewayCall =
    CallSignUp | CallSignIn | CallSignOut | CallGetSession | CallGetUser
  | CallResetPassword | CallUpdateUser | CallVerifyOtp | CallResend

text \<open>
  The world the client code runs in: the store's current state; every state a \<^verbatim>\<open>set(...)\<close>
  call has written, oldest first; the business context resolver's cached business id; the
  network calls issued to the gateway, oldest first; and the number of callbacks registered
  on the gateway's change-event stream.
\<close>

record World =
  store :: AuthState
  writes :: "AuthState list"
  cache :: "string option"
  calls :: "GatewayCall list"
  listeners :: nat

text \<open>The store's initial state (\<^verbatim>\<open>auth-store.ts\<close>, "Initial state").\<close>

definition initial_state :: AuthState where
  "initial_state =
     \<lparr>status = Initializing, user = None, businessId = None, error = None, isLoading = True\<rparr>"

definition initial_world :: World where
  "initial_world =
     \<lparr>store = initial_state, writes = [], cache = None, calls = [], listeners = 0\<rparr>"

text \<open>Zustand's \<^verbatim>\<open>set(state)\<close> with all five fields given: the state is replaced.\<close>

definition set_store :: "AuthState \<Rightarrow> World \<Rightarrow> World" where
  "set_store s w = w\<lparr>store := s, writes := writes w @ [s]\<rparr>"

definition gateway_call :: "GatewayCall \<Rightarrow> World \<Rightarrow> World" where
  "gateway_call c w = w\<lparr>calls := calls w @ [c]\<rparr>"

section \<open>The business context resolver (\<^verbatim>\<open>business-context.ts\<close>, an external collaborator)\<close>

text \<open>
  \<^verbatim>\<open>business-context.ts\<close> is not among the sources; its three operations that the
  sources call are taken from the contract the spec gives them. The resolver's state is
  the cached business id of the world.
\<close>

text \<open>Modelled from the spec: \<^verbatim>\<open>getCurrentBusinessId()\<close> is missing. The spec:
  "synchronous, cache-only, returns the last known association or null; never performs
  network I/O; must not throw".\<close>

definition bc_getCurrentBusinessId :: "World \<Rightarrow> string option" where
  "bc_getCurrentBusinessId w = cache w"

text \<open>Modelled from the spec: \<^verbatim>\<open>clearBusinessContext()\<close> is missing. The spec: "clears
  both [the local cache and the remote authorization context]; must be safe to call even
  if no context was ever set (no-op, not an error)". This is the effect of a call that
  completes. The spec does not say that every call completes, and the call is asynchronous:
  in \<^verbatim>\<open>auth.signOut\<close>, \<^verbatim>\<open>signOut\<close> and \<^verbatim>\<open>enhancedSignOut\<close>, whose \<^verbatim>\<open>catch\<close> blocks are
  there for it, the outcome of each call (it completes, it rejects, it never settles) is
  an input, and a call that does not complete leaves the cache as it was. In
  \<^verbatim>\<open>refreshSession\<close> and in the change-event callbacks the call is taken to complete.\<close>

definition bc_clearBusinessContext :: "World \<Rightarrow> World" where
  "bc_clearBusinessContext w = w\<lparr>cache := None\<rparr>"

text \<open>Modelled from the spec: \<^verbatim>\<open>setBusinessContext(businessId)\<close> is missing. The spec:
  "sets both the local cache and the remote authorization context; returns a success flag
  and an optional error". The flag and the error message are the environment's, given to
  the callers as the outcome of the call; the effect on the cache is this one.\<close>

record SetContextResult =
  sc_success :: bool
  sc_error :: "string option"

definition bc_setBusinessContext :: "string \<Rightarrow> World \<Rightarrow> World" where
  "bc_setBusinessContext b w = w\<lparr>cache := Some b\<rparr>"

section \<open>The auth facade (\<^verbatim>\<open>auth.ts\<close>)\<close>

text \<open>
  The browser as \<^verbatim>\<open>isLikelyAuthenticated\<close> reads it: whether \<^verbatim>\<open>window\<close> is defined,
  \<^verbatim>\<open>document.cookie\<close>, and \<^verbatim>\<open>localStorage.getItem('supabase.auth.token')\<close>. Reading either
  may throw; \<open>None\<close> is a read that throws.
\<close>

record Browser =
  has_window :: bool
  document_cookie :: "string option"
  local_token :: "string option option"

definition isLikelyAuthenticated :: "Browser \<Rightarrow> bool" where
  "isLikelyAuthenticated env =
     (if \<not> has_window env then False
      else (case document_cookie env of
              None \<Rightarrow> False
            | Some cookie \<Rightarrow>
                (let hasAuthCookie =
                       list_ex (\<lambda>c. str_startsWith (str_trim c) ''sb-'' \<and> str_includes c ''-auth-token'')
                         (str_split CHR '';'' cookie)
                 in (case local_token env of
                       None \<Rightarrow> False
                     | Some item \<Rightarrow> hasAuthCookie \<or> item \<noteq> None))))"

text \<open>
  \<^verbatim>\<open>auth.getSession\<close>: the gateway's answer is passed on, a gateway error is copied field
  by field, and a thrown value becomes an error of status 500. The argument \<open>p\<close> is what
  awaiting \<^verbatim>\<open>supabase.auth.getSession()\<close> gives.
\<close>

definition auth_getSession ::
  "(Session option) GwResponse promise \<Rightarrow> World \<Rightarrow> World \<times> (Session option) AuthResult promise" where
  "auth_getSession p w =
     (let w1 = gateway_call CallGetSession w in
      case p of
        Pending \<Rightarrow> (w1, Pending)
      | Rejected err \<Rightarrow>
          (w1, Fulfilled \<lparr>res_data = None,
             res_error = Some \<lparr>err_message = thrown_message ''Session retrieval failed'' err,
                               err_status = Some 500\<rparr>\<rparr>)
      | Fulfilled r \<Rightarrow>
          (case gw_error r of
             Some e \<Rightarrow>
               (w1, Fulfilled \<lparr>res_data = None,
                  res_error = Some \<lparr>err_message = gw_message e, err_status = gw_status e\<rparr>\<rparr>)
           | None \<Rightarrow> (w1, Fulfilled \<lparr>res_data = gw_data r, res_error = None\<rparr>)))"

text \<open>
  The other operations of the facade follow the same three-way shape; each is written out
  with its own empty data and its own default message. \<^verbatim>\<open>auth.signUp\<close>:
\<close>

definition auth_signUp ::
  "string \<Rightarrow> string \<Rightarrow> UserSession GwResponse promise \<Rightarrow> World
     \<Rightarrow> World \<times> UserSession AuthResult promise" where
  "auth_signUp email password p w =
     (let w1 = gateway_call CallSignUp w in
      case p of
        Pending \<Rightarrow> (w1, Pending)
      | Rejected err \<Rightarrow>
          (w1, Fulfilled \<lparr>res_data = \<lparr>us_user = None, us_session = None\<rparr>,
             res_error = Some \<lparr>err_message = thrown_message ''Registration failed'' err,
                               err_status = Some 500\<rparr>\<rparr>)
      | Fulfilled r \<Rightarrow>
          (case gw_error r of
             Some e \<Rightarrow>
               (w1, Fulfilled \<lparr>res_data = \<lparr>us_user = None, us_session = None\<rparr>,
                  res_error = Some \<lparr>err_message = gw_message e, err_status = gw_status e\<rparr>\<rparr>)
           | None \<Rightarrow> (w1, Fulfilled \<lparr>res_data = gw_data r, res_error = None\<rparr>)))"

text \<open>
  \<^verbatim>\<open>auth.signIn\<close>: after a successful gateway sign-in, a business id in the user's
  metadata is handed to the resolver's \<^verbatim>\<open>setBusinessContext\<close>, whose outcome is \<open>sbc\<close>; a
  resolver that answers without success is only logged, one that throws lands in the
  \<^verbatim>\<open>catch\<close> block of the whole operation.
\<close>

definition auth_signIn ::
  "string \<Rightarrow> string \<Rightarrow> UserSession GwResponse promise \<Rightarrow> SetContextResult promise \<Rightarrow> World
     \<Rightarrow> World \<times> UserSession AuthResult promise" where
  "auth_signIn email password p sbc w =
     (let w1 = gateway_call CallSignIn w;
          caught = (\<lambda>err. Fulfilled \<lparr>res_data = \<lparr>us_user = None, us_session = None\<rparr>,
                      res_error = Some \<lparr>err_message = thrown_message ''Login failed'' err,
                                        err_status = Some 500\<rparr>\<rparr>) in
      case p of
        Pending \<Rightarrow> (w1, Pending)
      | Rejected err \<Rightarrow> (w1, caught err)
      | Fulfilled r \<Rightarrow>
          (case gw_error r of
             Some e \<Rightarrow>
               (w1, Fulfilled \<lparr>res_data = \<lparr>us_user = None, us_session = None\<rparr>,
                  res_error = Some \<lparr>err_message = gw_message e, err_status = gw_status e\<rparr>\<rparr>)
           | None \<Rightarrow>
               (case us_session (gw_data r) of
                  None \<Rightarrow> (w1, Fulfilled \<lparr>res_data = gw_data r, res_error = None\<rparr>)
                | Some session \<Rightarrow>
                    (case gw_meta_business_id (session_user session) of
                       None \<Rightarrow> (w1, Fulfilled \<lparr>res_data = gw_data r, res_error = None\<rparr>)
                     | Some b \<Rightarrow>
                         (if b = [] then (w1, Fulfilled \<lparr>res_data = gw_data r, res_error = None\<rparr>)
                          else (case sbc of
                                  Pending \<Rightarrow> (w1, Pending)
                                | Rejected err \<Rightarrow> (w1, caught err)
                                | Fulfilled contextResult \<Rightarrow>
                                    (bc_setBusinessContext b w1,
                                     Fulfilled \<lparr>res_data = gw_data r, res_error = None\<rparr>)))))))"

text \<open>
  \<^verbatim>\<open>auth.signOut\<close>: the business context is cleared first; then the gateway's sign-out
  (which answers \<^verbatim>\<open>{ error }\<close>, and settles at the given time) is raced against a timer of
  2000 ms. The inner \<^verbatim>\<open>catch (timeoutError)\<close> receives every rejection of the race, the
  timer's and the gateway's alike, and returns \<^verbatim>\<open>{ error: null }\<close>. \<open>c\<close> is the outcome
  of the resolver's \<^verbatim>\<open>clearBusinessContext\<close>: when it rejects, the outer \<^verbatim>\<open>catch\<close> returns
  an error of status 500 and the gateway is not called.
\<close>

definition auth_signOut ::
  "unit promise \<Rightarrow> nat \<times> (GwError option) promise \<Rightarrow> World
     \<Rightarrow> World \<times> (AuthError option) promise" where
  "auth_signOut c tp w =
     (case c of
        Pending \<Rightarrow> (w, Pending)
      | Rejected err \<Rightarrow>
          (w, Fulfilled (Some \<lparr>err_message = thrown_message ''Logout failed'' err,
                               err_status = Some 500\<rparr>))
      | Fulfilled u \<Rightarrow>
          (let w1 = bc_clearBusinessContext w;
               w2 = gateway_call CallSignOut w1 in
           case race_timeout 2000 ''Supabase signOut timeout'' tp of
             Pending \<Rightarrow> (w2, Pending)
           | Rejected timeoutError \<Rightarrow> (w2, Fulfilled None)
           | Fulfilled result \<Rightarrow>
               (case result of
                  Some e \<Rightarrow>
                    (w2, Fulfilled (Some \<lparr>err_message = gw_message e, err_status = gw_status e\<rparr>))
                | None \<Rightarrow> (w2, Fulfilled None))))"

text \<open>
  \<^verbatim>\<open>auth.enhancedSignOut\<close> delegates to \<^verbatim>\<open>enhancedLogout\<close> of
  \<^verbatim>\<open>logout-session-management.ts\<close>, which is not among the sources: its outcome \<open>elo\<close>
  (a success flag, an optional error, the per-step cleanup results) is the environment's,
  and a failed dynamic import is a rejection of \<open>elo\<close>. What that routine does to the
  resolver's cache is not modelled.
\<close>

record SignOutConfig =
  cfg_clearBusinessContext :: "bool option"
  cfg_clearLocalStorage :: "bool option"
  cfg_redirectToLogin :: "bool option"
  cfg_redirectUrl :: "string option"

record EnhancedLogoutResult =
  el_success :: bool
  el_error :: "AuthError option"
  el_cleanupResults :: "(string \<times> bool) list"

record EnhancedSignOutResult =
  eso_error :: "AuthError option"
  eso_cleanupResults :: "(string \<times> bool) list option"

definition auth_enhancedSignOut ::
  "SignOutConfig option \<Rightarrow> EnhancedLogoutResult promise \<Rightarrow> World
     \<Rightarrow> World \<times> EnhancedSignOutResult promise" where
  "auth_enhancedSignOut config elo w =
     (case elo of
        Pending \<Rightarrow> (w, Pending)
      | Rejected err \<Rightarrow>
          (w, Fulfilled \<lparr>eso_error = Some \<lparr>err_message = thrown_message ''Enhanced logout failed'' err,
                                           err_status = Some 500\<rparr>,
                         eso_cleanupResults = None\<rparr>)
      | Fulfilled result \<Rightarrow>
          (w, Fulfilled
             \<lparr>eso_error =
                (if el_success result then None
                 else (case el_error result of
                         Some e \<Rightarrow> Some e
                       | None \<Rightarrow> Some \<lparr>err_message = ''Enhanced logout failed'',
                                        err_status = Some 500\<rparr>)),
              eso_cleanupResults = Some (el_cleanupResults result)\<rparr>))"

text \<open>\<^verbatim>\<open>auth.getUser\<close>, \<^verbatim>\<open>auth.resetPassword\<close>, \<^verbatim>\<open>auth.updatePassword\<close>,
  \<^verbatim>\<open>auth.verifyEmail\<close> and \<^verbatim>\<open>auth.resendVerificationEmail\<close>. The data of the last three
  are nullable objects: \<open>None\<close> is \<^verbatim>\<open>null\<close>.\<close>

definition auth_getUser ::
  "(GwUser option) GwResponse promise \<Rightarrow> World \<Rightarrow> World \<times> (GwUser option) AuthResult promise" where
  "auth_getUser p w =
     (let w1 = gateway_call CallGetUser w in
      case p of
        Pending \<Rightarrow> (w1, Pending)
      | Rejected err \<Rightarrow>
          (w1, Fulfilled \<lparr>res_data = None,
             res_error = Some \<lparr>err_message = thrown_message ''User retrieval failed'' err,
                               err_status = Some 500\<rparr>\<rparr>)
      | Fulfilled r \<Rightarrow>
          (case gw_error r of
             Some e \<Rightarrow>
               (w1, Fulfilled \<lparr>res_data = None,
                  res_error = Some \<lparr>err_message = gw_message e, err_status = gw_status e\<rparr>\<rparr>)
           | None \<Rightarrow> (w1, Fulfilled \<lparr>res_data = gw_data r, res_error = None\<rparr>)))"

definition auth_resetPassword ::
  "string \<Rightarrow> 'd GwResponse promise \<Rightarrow> World \<Rightarrow> World \<times> ('d option) AuthResult promise" where
  "auth_resetPassword email p w =
     (let w1 = gateway_call CallResetPassword w in
      case p of
        Pending \<Rightarrow> (w1, Pending)
      | Rejected err \<Rightarrow>
          (w1, Fulfilled \<lparr>res_data = None,
             res_error = Some \<lparr>err_message = thrown_message ''Password reset failed'' err,
                               err_status = Some 500\<rparr>\<rparr>)
      | Fulfilled r \<Rightarrow>
          (case gw_error r of
             Some e \<Rightarrow>
               (w1, Fulfilled \<lparr>res_data = None,
                  res_error = Some \<lparr>err_message = gw_message e, err_status = gw_status e\<rparr>\<rparr>)
           | None \<Rightarrow> (w1, Fulfilled \<lparr>res_data = Some (gw_data r), res_error = None\<rparr>)))"

definition auth_updatePassword ::
  "string \<Rightarrow> 'd GwResponse promise \<Rightarrow> World \<Rightarrow> World \<times> ('d option) AuthResult promise" where
  "auth_updatePassword password p w =
     (let w1 = gateway_call CallUpdateUser w in
      case p of
        Pending \<Rightarrow> (w1, Pending)
      | Rejected err \<Rightarrow>
          (w1, Fulfilled \<lparr>res_data = None,
             res_error = Some \<lparr>err_message = thrown_message ''Password update failed'' err,
                               err_status = Some 500\<rparr>\<rparr>)
      | Fulfilled r \<Rightarrow>
          (case gw_error r of
             Some e \<Rightarrow>
               (w1, Fulfilled \<lparr>res_data = None,
                  res_error = Some \<lparr>err_message = gw_message e, err_status = gw_status e\<rparr>\<rparr>)
           | None \<Rightarrow> (w1, Fulfilled \<lparr>res_data = Some (gw_data r), res_error = None\<rparr>)))"

datatype OtpType = Signup | Recovery

definition auth_verifyEmail ::
  "string \<Rightarrow> OtpType \<Rightarrow> UserSession GwResponse promise \<Rightarrow> World
     \<Rightarrow> World \<times> UserSession AuthResult promise" where
  "auth_verifyEmail token type p w =
     (let w1 = gateway_call CallVerifyOtp w in
      case p of
        Pending \<Rightarrow> (w1, Pending)
      | Rejected err \<Rightarrow>
          (w1, Fulfilled \<lparr>res_data = \<lparr>us_user = None, us_session = None\<rparr>,
             res_error = Some \<lparr>err_message = thrown_message ''Email verification failed'' err,
                               err_status = Some 500\<rparr>\<rparr>)
      | Fulfilled r \<Rightarrow>
          (case gw_error r of
             Some e \<Rightarrow>
               (w1, Fulfilled \<lparr>res_data = \<lparr>us_user = None, us_session = None\<rparr>,
                  res_error = Some \<lparr>err_message = gw_message e, err_status = gw_status e\<rparr>\<rparr>)
           | None \<Rightarrow> (w1, Fulfilled \<lparr>res_data = gw_data r, res_error = None\<rparr>)))"

text \<open>The gateway's data of \<^verbatim>\<open>resend\<close> holds an optional \<^verbatim>\<open>messageId\<close>
  (\<^verbatim>\<open>data?.messageId ?? undefined\<close>).\<close>

definition auth_resendVerificationEmail ::
  "string \<Rightarrow> OtpType \<Rightarrow> (string option) GwResponse promise \<Rightarrow> World
     \<Rightarrow> World \<times> (string option option) AuthResult promise" where
  "auth_resendVerificationEmail email type p w =
     (let w1 = gateway_call CallResend w in
      case p of
        Pending \<Rightarrow> (w1, Pending)
      | Rejected err \<Rightarrow>
          (w1, Fulfilled \<lparr>res_data = None,
             res_error = Some \<lparr>err_message = thrown_message ''Resend email failed'' err,
                               err_status = Some 500\<rparr>\<rparr>)
      | Fulfilled r \<Rightarrow>
          (case gw_error r of
             Some e \<Rightarrow>
               (w1, Fulfilled \<lparr>res_data = None,
                  res_error = Some \<lparr>err_message = gw_message e, err_status = gw_status e\<rparr>\<rparr>)
           | None \<Rightarrow> (w1, Fulfilled \<lparr>res_data = Some (gw_data r), res_error = None\<rparr>)))"

text \<open>
  \<^verbatim>\<open>auth.onAuthStateChange\<close> wraps the callback it is given: on a change event with a
  session it takes the business id from the user's metadata or else from the cache, sets
  the business context when there is one (outcome \<open>sbc\<close>), and calls the callback with the
  user it built; on an event without a session it clears the business context and calls
  the callback with \<^verbatim>\<open>null\<close>. The result is the argument the callback is called with; when
  \<^verbatim>\<open>setBusinessContext\<close> throws or hangs the callback is not called.
\<close>

definition auth_change_event ::
  "Session option \<Rightarrow> SetContextResult promise \<Rightarrow> World \<Rightarrow> World \<times> (AuthUser option) promise" where
  "auth_change_event session sbc w =
     (case session of
        None \<Rightarrow> (bc_clearBusinessContext w, Fulfilled None)
      | Some s \<Rightarrow>
          (let bid = or_else (gw_meta_business_id (session_user s)) (bc_getCurrentBusinessId w);
               u = \<lparr>user_id = gw_id (session_user s),
                    user_email = or_empty (gw_email (session_user s)),
                    user_name = gw_meta_name (session_user s),
                    user_businessId = or_undefined bid\<rparr> in
           case bid of
             None \<Rightarrow> (w, Fulfilled (Some u))
           | Some b \<Rightarrow>
               (if b = [] then (w, Fulfilled (Some u))
                else (case sbc of
                        Pending \<Rightarrow> (w, Pending)
                      | Rejected err \<Rightarrow> (w, Rejected err)
                      | Fulfilled r \<Rightarrow> (bc_setBusinessContext b w, Fulfilled (Some u))))))"

text \<open>\<^verbatim>\<open>auth.onAuthStateChange(callback)\<close>: one more callback on the change-event stream.
  Registering is synchronous and returns the subscription handle, as the gateway's
  interface says; it does not throw.\<close>

definition auth_onAuthStateChange :: "World \<Rightarrow> World" where
  "auth_onAuthStateChange w = w\<lparr>listeners := Suc (listeners w)\<rparr>"

section \<open>The auth state machine (\<^verbatim>\<open>auth-store.ts\<close>)\<close>

text \<open>The \<^verbatim>\<open>AuthUser\<close> that \<^verbatim>\<open>initialize\<close> and \<^verbatim>\<open>refreshSession\<close> build from a session.\<close>

definition session_authUser :: "Session \<Rightarrow> string option \<Rightarrow> AuthUser" where
  "session_authUser session validatedBusinessId =
     \<lparr>user_id = gw_id (session_user session),
      user_email = or_empty (gw_email (session_user session)),
      user_name = gw_meta_name (session_user session),
      user_businessId = or_undefined validatedBusinessId\<rparr>"

text \<open>
  \<^verbatim>\<open>initialize\<close>. \<open>env\<close> is the browser the marker check reads, \<open>p\<close> the outcome of the
  gateway's session query. The change-event callback is registered in the live-session
  branch only, after the state is set. (The inner \<^verbatim>\<open>try\<close> around
  \<^verbatim>\<open>getCurrentBusinessId\<close> guards a throw that the resolver's contract excludes.)
\<close>

definition initialize ::
  "Browser \<Rightarrow> (Session option) GwResponse promise \<Rightarrow> World \<Rightarrow> World \<times> unit promise" where
  "initialize env p w =
     (if \<not> isLikelyAuthenticated env then
        (set_store \<lparr>status = Unauthenticated, user = None, businessId = None,
                    error = None, isLoading = False\<rparr> w, Fulfilled ())
      else
        (case auth_getSession p w of
           (w1, Pending) \<Rightarrow> (w1, Pending)
         | (w1, Rejected err) \<Rightarrow>
             (set_store \<lparr>status = Unauthenticated, user = None, businessId = None,
                error = Some \<lparr>err_message = thrown_message ''Initialization failed'' err,
                              err_status = None\<rparr>,
                isLoading = False\<rparr> w1, Fulfilled ())
         | (w1, Fulfilled r) \<Rightarrow>
             (case res_error r of
                Some e \<Rightarrow>
                  (set_store \<lparr>status = Unauthenticated, user = None, businessId = None,
                              error = Some e, isLoading = False\<rparr> w1, Fulfilled ())
              | None \<Rightarrow>
                  (case res_data r of
                     Some session \<Rightarrow>
                       (let validatedBusinessId = bc_getCurrentBusinessId w1;
                            u = session_authUser session validatedBusinessId;
                            w2 = set_store \<lparr>status = Authenticated, user = Some u,
                                   businessId = validatedBusinessId, error = None,
                                   isLoading = False\<rparr> w1
                        in (auth_onAuthStateChange w2, Fulfilled ()))
                   | None \<Rightarrow>
                       (set_store \<lparr>status = Unauthenticated, user = None, businessId = None,
                                   error = None, isLoading = False\<rparr> w1, Fulfilled ())))))"

text \<open>
  \<^verbatim>\<open>signIn\<close>: the state goes to \<^verbatim>\<open>authenticating\<close>; a failure of the facade's sign-in is
  written to the state and returned; after a success nothing is written here ("auth
  listener will handle state update"). The result is the \<^verbatim>\<open>error\<close> field of the returned
  object.
\<close>

definition signIn ::
  "string \<Rightarrow> string \<Rightarrow> UserSession GwResponse promise \<Rightarrow> SetContextResult promise \<Rightarrow> World
     \<Rightarrow> World \<times> (AuthError option) promise" where
  "signIn email password p sbc w =
     (let w1 = set_store \<lparr>status = Authenticating, user = None, businessId = None,
                          error = None, isLoading = True\<rparr> w in
      case auth_signIn email password p sbc w1 of
        (w2, Pending) \<Rightarrow> (w2, Pending)
      | (w2, Rejected err) \<Rightarrow>
          (let authError = \<lparr>err_message = thrown_message ''Sign in failed'' err, err_status = None\<rparr>
           in (set_store \<lparr>status = Unauthenticated, user = None, businessId = None,
                          error = Some authError, isLoading = False\<rparr> w2,
               Fulfilled (Some authError)))
      | (w2, Fulfilled result) \<Rightarrow>
          (case res_error result of
             Some e \<Rightarrow>
               (set_store \<lparr>status = Unauthenticated, user = None, businessId = None,
                           error = Some e, isLoading = False\<rparr> w2,
                Fulfilled (Some e))
           | None \<Rightarrow> (w2, Fulfilled None)))"

text \<open>\<^verbatim>\<open>signUp\<close>, symmetric to \<^verbatim>\<open>signIn\<close>.\<close>

definition signUp ::
  "string \<Rightarrow> string \<Rightarrow> UserSession GwResponse promise \<Rightarrow> World
     \<Rightarrow> World \<times> (AuthError option) promise" where
  "signUp email password p w =
     (let w1 = set_store \<lparr>status = Authenticating, user = None, businessId = None,
                          error = None, isLoading = True\<rparr> w in
      case auth_signUp email password p w1 of
        (w2, Pending) \<Rightarrow> (w2, Pending)
      | (w2, Rejected err) \<Rightarrow>
          (let authError = \<lparr>err_message = thrown_message ''Sign up failed'' err, err_status = None\<rparr>
           in (set_store \<lparr>status = Unauthenticated, user = None, businessId = None,
                          error = Some authError, isLoading = False\<rparr> w2,
               Fulfilled (Some authError)))
      | (w2, Fulfilled result) \<Rightarrow>
          (case res_error result of
             Some e \<Rightarrow>
               (set_store \<lparr>status = Unauthenticated, user = None, businessId = None,
                           error = Some e, isLoading = False\<rparr> w2,
                Fulfilled (Some e))
           | None \<Rightarrow> (w2, Fulfilled None)))"

text \<open>
  The first statement of \<^verbatim>\<open>signOut\<close> and of \<^verbatim>\<open>enhancedSignOut\<close>: from \<^verbatim>\<open>authenticated\<close>,
  \<^verbatim>\<open>set({ ...currentState, status: 'signing-out', isLoading: true })\<close>; the user, the
  business id and the error are the current ones.
\<close>

definition begin_signing_out :: "World \<Rightarrow> World" where
  "begin_signing_out w =
     (if status (store w) = Authenticated
      then set_store ((store w)\<lparr>status := SigningOut, isLoading := True\<rparr>) w
      else w)"

text \<open>
  The emergency cleanup of \<^verbatim>\<open>signOut\<close>'s \<^verbatim>\<open>catch\<close> block:
  \<^verbatim>\<open>try { await clearBusinessContext(); set(...) } catch (cleanupError) { ... }\<close> and
  then \<^verbatim>\<open>throw error\<close>. \<open>c\<close> is the outcome of this \<^verbatim>\<open>clearBusinessContext\<close>: when it
  rejects, the \<^verbatim>\<open>set\<close> after it is skipped.
\<close>

definition signOut_cleanup :: "unit promise \<Rightarrow> thrown \<Rightarrow> World \<Rightarrow> World \<times> unit promise" where
  "signOut_cleanup c err w =
     (case c of
        Pending \<Rightarrow> (w, Pending)
      | Rejected cleanupError \<Rightarrow> (w, Rejected err)
      | Fulfilled u \<Rightarrow>
          (set_store \<lparr>status = Unauthenticated, user = None, businessId = None,
                      error = None, isLoading = False\<rparr> (bc_clearBusinessContext w),
           Rejected err))"

text \<open>
  \<^verbatim>\<open>signOut\<close>: business context cleared, then the facade's sign-out. An error the facade
  returns is written to the state and thrown as \<^verbatim>\<open>new Error(result.error.message)\<close>; the
  \<^verbatim>\<open>catch\<close> block of the same function catches it, as it catches a rejection of the first
  \<^verbatim>\<open>clearBusinessContext\<close>, cleans up and rethrows. \<open>c1\<close>, \<open>c2\<close> and \<open>c3\<close> are the
  outcomes of the three \<^verbatim>\<open>clearBusinessContext\<close> calls on the way: the one of \<^verbatim>\<open>signOut\<close>,
  the one of \<^verbatim>\<open>auth.signOut\<close>, the one of the emergency cleanup.
\<close>

definition signOut ::
  "unit promise \<Rightarrow> unit promise \<Rightarrow> unit promise \<Rightarrow> nat \<times> (GwError option) promise \<Rightarrow> World
     \<Rightarrow> World \<times> unit promise" where
  "signOut c1 c2 c3 tp w =
     (let w1 = begin_signing_out w in
      case c1 of
        Pending \<Rightarrow> (w1, Pending)
      | Rejected err \<Rightarrow> signOut_cleanup c3 err w1
      | Fulfilled u \<Rightarrow>
          (case auth_signOut c2 tp (bc_clearBusinessContext w1) of
             (w3, Pending) \<Rightarrow> (w3, Pending)
           | (w3, Rejected err) \<Rightarrow> signOut_cleanup c3 err w3
           | (w3, Fulfilled result) \<Rightarrow>
               (case result of
                  Some e \<Rightarrow>
                    signOut_cleanup c3 (ErrorObj (err_message e))
                      (set_store \<lparr>status = Unauthenticated, user = None, businessId = None,
                                  error = Some e, isLoading = False\<rparr> w3)
                | None \<Rightarrow>
                    (set_store \<lparr>status = Unauthenticated, user = None, businessId = None,
                                error = None, isLoading = False\<rparr> w3, Fulfilled ()))))"

text \<open>
  The emergency cleanup of \<^verbatim>\<open>enhancedSignOut\<close>, of the same shape but without a rethrow:
  the world after it, or \<open>None\<close> when its \<^verbatim>\<open>clearBusinessContext\<close> (outcome \<open>c\<close>) never
  settles.
\<close>

definition enhancedSignOut_cleanup :: "unit promise \<Rightarrow> World \<Rightarrow> World option" where
  "enhancedSignOut_cleanup c w =
     (case c of
        Pending \<Rightarrow> None
      | Rejected cleanupError \<Rightarrow> Some w
      | Fulfilled u \<Rightarrow>
          Some (set_store \<lparr>status = Unauthenticated, user = None, businessId = None,
                           error = None, isLoading = False\<rparr> (bc_clearBusinessContext w)))"

text \<open>\<^verbatim>\<open>enhancedSignOut\<close>: the facade's result is returned as it is; a thrown value
  becomes an error without status and without cleanup results. A facade result with an
  error, and a thrown value, go through the emergency cleanup.\<close>

definition enhancedSignOut ::
  "SignOutConfig option \<Rightarrow> EnhancedLogoutResult promise \<Rightarrow> unit promise \<Rightarrow> World
     \<Rightarrow> World \<times> EnhancedSignOutResult promise" where
  "enhancedSignOut config elo c w =
     (let w1 = begin_signing_out w in
      case auth_enhancedSignOut config elo w1 of
        (w2, Pending) \<Rightarrow> (w2, Pending)
      | (w2, Rejected err) \<Rightarrow>
          (case enhancedSignOut_cleanup c w2 of
             None \<Rightarrow> (w2, Pending)
           | Some w3 \<Rightarrow>
               (w3, Fulfilled \<lparr>eso_error = Some \<lparr>err_message =
                                                  thrown_message ''Enhanced sign out failed'' err,
                                                err_status = None\<rparr>,
                               eso_cleanupResults = None\<rparr>))
      | (w2, Fulfilled result) \<Rightarrow>
          (case eso_error result of
             Some e \<Rightarrow>
               (case enhancedSignOut_cleanup c w2 of
                  None \<Rightarrow> (w2, Pending)
                | Some w3 \<Rightarrow> (w3, Fulfilled result))
           | None \<Rightarrow>
               (set_store \<lparr>status = Unauthenticated, user = None, businessId = None,
                           error = None, isLoading = False\<rparr> w2,
                Fulfilled result)))"

text \<open>
  The store's \<^verbatim>\<open>setBusinessContext\<close>: \<open>sbc\<close> is the outcome of the resolver's
  \<^verbatim>\<open>setBusinessContext\<close>. On success an \<^verbatim>\<open>authenticated\<close> state gets the business id, in
  the state and in its user.
\<close>

definition setBusinessContext ::
  "string \<Rightarrow> SetContextResult promise \<Rightarrow> World \<Rightarrow> World \<times> (AuthError option) promise" where
  "setBusinessContext b sbc w =
     (case sbc of
        Pending \<Rightarrow> (w, Pending)
      | Rejected err \<Rightarrow>
          (w, Fulfilled (Some \<lparr>err_message = ''Error al establecer el contexto del negocio'',
                               err_status = None\<rparr>))
      | Fulfilled result \<Rightarrow>
          (let w1 = bc_setBusinessContext b w in
           if \<not> sc_success result then
             (w1, Fulfilled (Some \<lparr>err_message =
                    (if truthy (sc_error result) then or_empty (sc_error result)
                     else ''Error al establecer el contexto del negocio''),
                  err_status = None\<rparr>))
           else
             (case user (store w1) of
                Some u \<Rightarrow>
                  (if status (store w1) = Authenticated
                   then (set_store ((store w1)\<lparr>user := Some (u\<lparr>user_businessId := Some b\<rparr>),
                                               businessId := Some b\<rparr>) w1, Fulfilled None)
                   else (w1, Fulfilled None))
              | None \<Rightarrow> (w1, Fulfilled None))))"

text \<open>
  \<^verbatim>\<open>refreshSession\<close> reads only the data of the facade's answer; its error is not looked
  at. Without a session the state is set first and the business context cleared after.
\<close>

definition refreshSession ::
  "(Session option) GwResponse promise \<Rightarrow> World \<Rightarrow> World \<times> unit promise" where
  "refreshSession p w =
     (case auth_getSession p w of
        (w1, Pending) \<Rightarrow> (w1, Pending)
      | (w1, Rejected err) \<Rightarrow>
          (bc_clearBusinessContext
             (set_store \<lparr>status = Unauthenticated, user = None, businessId = None,
                         error = None, isLoading = False\<rparr> w1), Fulfilled ())
      | (w1, Fulfilled r) \<Rightarrow>
          (case res_data r of
             Some session \<Rightarrow>
               (let validatedBusinessId = bc_getCurrentBusinessId w1;
                    authUser = session_authUser session validatedBusinessId
                in (set_store \<lparr>status = Authenticated, user = Some authUser,
                               businessId = validatedBusinessId, error = None,
                               isLoading = False\<rparr> w1, Fulfilled ()))
           | None \<Rightarrow>
               (bc_clearBusinessContext
                  (set_store \<lparr>status = Unauthenticated, user = None, businessId = None,
                              error = None, isLoading = False\<rparr> w1), Fulfilled ())))"

text \<open>
  The callback \<^verbatim>\<open>initialize\<close> registers on the change-event stream, called with the user
  the facade built (\<open>None\<close> is \<^verbatim>\<open>null\<close>: logged out).
\<close>

definition change_callback :: "AuthUser option \<Rightarrow> World \<Rightarrow> World" where
  "change_callback authUser w =
     (case authUser of
        Some u \<Rightarrow>
          (let currentBusinessId = bc_getCurrentBusinessId w;
               u' = (if truthy currentBusinessId then u\<lparr>user_businessId := currentBusinessId\<rparr> else u)
           in set_store \<lparr>status = Authenticated, user = Some u', businessId = currentBusinessId,
                         error = None, isLoading = False\<rparr> w)
      | None \<Rightarrow>
          set_store \<lparr>status = Unauthenticated, user = None, businessId = None,
                     error = None, isLoading = False\<rparr> (bc_clearBusinessContext w))"

text \<open>One registered callback receiving a change event of the gateway, through the
  facade's wrapper.\<close>

definition deliver_change :: "Session option \<Rightarrow> SetContextResult promise \<Rightarrow> World \<Rightarrow> World" where
  "deliver_change session sbc w =
     (case auth_change_event session sbc w of
        (w1, Fulfilled authUser) \<Rightarrow> change_callback authUser w1
      | (w1, Rejected err) \<Rightarrow> w1
      | (w1, Pending) \<Rightarrow> w1)"

text \<open>The internal transitions \<^verbatim>\<open>_setUnauthenticated(error)\<close> (\<^verbatim>\<open>error || null\<close>) and
  \<^verbatim>\<open>_setAuthenticated(user, businessId)\<close> (\<^verbatim>\<open>businessId || null\<close>).\<close>

definition setUnauthenticated_internal :: "AuthError option \<Rightarrow> World \<Rightarrow> World" where
  "setUnauthenticated_internal e w =
     set_store \<lparr>status = Unauthenticated, user = None, businessId = None,
                error = e, isLoading = False\<rparr> w"

definition setAuthenticated_internal :: "AuthUser \<Rightarrow> string option \<Rightarrow> World \<Rightarrow> World" where
  "setAuthenticated_internal u b w =
     set_store \<lparr>status = Authenticated, user = Some u, businessId = or_undefined b,
                error = None, isLoading = False\<rparr> w"

text \<open>
  The actions on the state machine, each with what its environment answers, and a run of
  one action. A change event of the gateway reaches every callback registered so far, and
  nobody when none is registered. Actions run one after another; an action whose awaited
  promise never settles leaves the world as it was at that \<^verbatim>\<open>await\<close>.
\<close>

datatype Action =
    Initialize Browser "(Session option) GwResponse promise"
  | SignIn string string "UserSession GwResponse promise" "SetContextResult promise"
  | SignUp string string "UserSession GwResponse promise"
  | SignOut "unit promise" "unit promise" "unit promise" "nat \<times> (GwError option) promise"
  | EnhancedSignOut "SignOutConfig option" "EnhancedLogoutResult promise" "unit promise"
  | RefreshSession "(Session option) GwResponse promise"
  | SetBusinessContext string "SetContextResult promise"
  | ChangeEvent "Session option" "SetContextResult promise"
  | SetUnauthenticatedInternal "AuthError option"
  | SetAuthenticatedInternal AuthUser "string option"

fun run :: "Action \<Rightarrow> World \<Rightarrow> World" where
  "run (Initialize env p) w = fst (initialize env p w)"
| "run (SignIn email password p sbc) w = fst (signIn email password p sbc w)"
| "run (SignUp email password p) w = fst (signUp email password p w)"
| "run (SignOut c1 c2 c3 tp) w = fst (signOut c1 c2 c3 tp w)"
| "run (EnhancedSignOut config elo c) w = fst (enhancedSignOut config elo c w)"
| "run (RefreshSession p) w = fst (refreshSession p w)"
| "run (SetBusinessContext b sbc) w = fst (setBusinessContext b sbc w)"
| "run (ChangeEvent session sbc) w = ((deliver_change session sbc) ^^ (listeners w)) w"
| "run (SetUnauthenticatedInternal e) w = setUnauthenticated_internal e w"
| "run (SetAuthenticatedInternal u b) w = setAuthenticated_internal u b w"

fun run_all :: "Action list \<Rightarrow> World \<Rightarrow> World" where
  "run_all [] w = w"
| "run_all (a # as) w = run_all as (run a w)"

text \<open>The states the machine has been in along a run: the initial one and every state
  written since.\<close>

definition visited :: "Action list \<Rightarrow> AuthState list" where
  "visited as = initial_state # writes (run_all as initial_world)"

section \<open>The context-based provider (\<^verbatim>\<open>auth-context.tsx\<close>)\<close>

text \<open>The three state variables of the provider and their initial values.\<close>

record ContextState =
  cx_user :: "AuthUser option"
  cx_isLoading :: bool
  cx_isInitialized :: bool

definition context_initial :: ContextState where
  "context_initial = \<lparr>cx_user = None, cx_isLoading = True, cx_isInitialized = False\<rparr>"

text \<open>The \<^verbatim>\<open>finally\<close> block of \<^verbatim>\<open>initializeAuth\<close>.\<close>

definition initializeAuth_finally :: "bool \<Rightarrow> ContextState \<Rightarrow> ContextState" where
  "initializeAuth_finally mounted cs =
     (if mounted then cs\<lparr>cx_isInitialized := True, cx_isLoading := False\<rparr> else cs)"

text \<open>
  \<^verbatim>\<open>initializeAuth\<close>: \<open>mounted\<close> is the flag as it is after the \<^verbatim>\<open>await\<close> (it is true
  before). A session-check error is logged and the run goes on; the subscription is
  registered on every path that gets past the \<^verbatim>\<open>await\<close> without throwing.
\<close>

definition initializeAuth ::
  "Browser \<Rightarrow> (Session option) GwResponse promise \<Rightarrow> bool \<Rightarrow> ContextState \<times> World
     \<Rightarrow> (ContextState \<times> World) \<times> unit promise" where
  "initializeAuth env p mounted cw =
     (let cs = fst cw; w = snd cw in
      if \<not> isLikelyAuthenticated env then ((initializeAuth_finally True cs, w), Fulfilled ())
      else
        (case auth_getSession p w of
           (w1, Pending) \<Rightarrow> ((cs, w1), Pending)
         | (w1, Rejected err) \<Rightarrow> ((initializeAuth_finally mounted cs, w1), Fulfilled ())
         | (w1, Fulfilled r) \<Rightarrow>
             (let cs1 = (case res_data r of
                           Some session \<Rightarrow>
                             (if mounted
                              then cs\<lparr>cx_user := Some (session_authUser session
                                                          (bc_getCurrentBusinessId w1))\<rparr>
                              else cs)
                         | None \<Rightarrow> cs)
              in ((initializeAuth_finally mounted cs1, auth_onAuthStateChange w1), Fulfilled ()))))"

text \<open>
  The provider's \<^verbatim>\<open>signOut\<close>. On the way that returns normally the user is not touched
  ("User state will be updated via the auth state change listener"); \<^verbatim>\<open>setUser(null)\<close>
  stands in the \<^verbatim>\<open>catch\<close> block only, after the cleanup's \<^verbatim>\<open>clearBusinessContext\<close>,
  and the \<^verbatim>\<open>finally\<close> block clears \<^verbatim>\<open>isLoading\<close>. \<open>c1\<close>, \<open>c2\<close> and \<open>c3\<close> are the
  outcomes of the three \<^verbatim>\<open>clearBusinessContext\<close> calls, as for the store's \<^verbatim>\<open>signOut\<close>.
\<close>

definition signOut_context_cleanup ::
  "unit promise \<Rightarrow> thrown \<Rightarrow> ContextState \<times> World \<Rightarrow> (ContextState \<times> World) \<times> unit promise" where
  "signOut_context_cleanup c err cw =
     (case c of
        Pending \<Rightarrow> (cw, Pending)
      | Rejected cleanupError \<Rightarrow> (((fst cw)\<lparr>cx_isLoading := False\<rparr>, snd cw), Rejected err)
      | Fulfilled u \<Rightarrow>
          (((fst cw)\<lparr>cx_user := None, cx_isLoading := False\<rparr>, bc_clearBusinessContext (snd cw)),
           Rejected err))"

definition signOut_context ::
  "unit promise \<Rightarrow> unit promise \<Rightarrow> unit promise \<Rightarrow> nat \<times> (GwError option) promise
     \<Rightarrow> ContextState \<times> World \<Rightarrow> (ContextState \<times> World) \<times> unit promise" where
  "signOut_context c1 c2 c3 tp cw =
     (let cs = (fst cw)\<lparr>cx_isLoading := True\<rparr>; w = snd cw in
      case c1 of
        Pending \<Rightarrow> ((cs, w), Pending)
      | Rejected err \<Rightarrow> signOut_context_cleanup c3 err (cs, w)
      | Fulfilled u \<Rightarrow>
          (case auth_signOut c2 tp (bc_clearBusinessContext w) of
             (w2, Pending) \<Rightarrow> ((cs, w2), Pending)
           | (w2, Rejected err) \<Rightarrow> signOut_context_cleanup c3 err (cs, w2)
           | (w2, Fulfilled result) \<Rightarrow>
               (case result of
                  Some e \<Rightarrow> signOut_context_cleanup c3 (ErrorObj (err_message e)) (cs, w2)
                | None \<Rightarrow> ((cs\<lparr>cx_isLoading := False\<rparr>, w2), Fulfilled ()))))"

section \<open>The login view's own session check (\<^verbatim>\<open>login/page.tsx\<close>)\<close>




section \<open>Business context hook and route guards\<close>

text \<open>
  \<^verbatim>\<open>useBusinessContext\<close> (\<^verbatim>\<open>auth-context.tsx\<close>, and the same text in \<^verbatim>\<open>auth-store.ts\<close>):
  its three state variables, their initial values, and one run of
  \<^verbatim>\<open>loadBusinessContext\<close>, where \<open>outcome\<close> is what
  \<^verbatim>\<open>getCurrentBusinessIdAsync\<close> gives and \<open>mounted\<close> the flag as it is after the \<^verbatim>\<open>await\<close>.
\<close>

record BusinessContextHook =
  hk_businessId :: "string option"
  hk_isLoading :: bool
  hk_error :: "string option"

definition hook_initial :: BusinessContextHook where
  "hook_initial = \<lparr>hk_businessId = None, hk_isLoading = True, hk_error = None\<rparr>"

definition loadBusinessContext ::
  "bool \<Rightarrow> AuthUser option \<Rightarrow> bool \<Rightarrow> (string option) promise
     \<Rightarrow> BusinessContextHook \<Rightarrow> BusinessContextHook" where
  "loadBusinessContext isInitialized usr mounted outcome h =
     (if \<not> isInitialized \<or> usr = None then h\<lparr>hk_isLoading := False\<rparr>
      else
        (let h1 = h\<lparr>hk_isLoading := True, hk_error := None\<rparr> in
         case outcome of
           Pending \<Rightarrow> h1
         | Fulfilled result \<Rightarrow>
             (if mounted then h1\<lparr>hk_businessId := result, hk_isLoading := False\<rparr> else h1)
         | Rejected err \<Rightarrow>
             (if mounted then
                (case err of
                   ErrorObj m \<Rightarrow>
                     (if m = ''TIMEOUT'' then h1\<lparr>hk_error := Some ''TIMEOUT'', hk_isLoading := False\<rparr>
                      else h1\<lparr>hk_error := Some m, hk_isLoading := False\<rparr>)
                 | NonError \<Rightarrow>
                     h1\<lparr>hk_error := Some ''Failed to load business context'',
                        hk_isLoading := False\<rparr>
                 | Nullish \<Rightarrow>
                     h1\<lparr>hk_error := Some ''Failed to load business context'',
                        hk_isLoading := False\<rparr>)
              else h1)))"

text \<open>
  The effect of the route guard that reads the hook (\<^verbatim>\<open>ProtectedRoute\<close> on
  \<^verbatim>\<open>@/lib/auth-context\<close>): the address it pushes to the router, if any. \<open>enc\<close> is
  \<^verbatim>\<open>encodeURIComponent\<close>. The tests \<^verbatim>\<open>if (businessError)\<close> and \<^verbatim>\<open>if (!businessId)\<close> are
  truthiness tests on strings.
\<close>

definition ProtectedRoute_context ::
  "(string \<Rightarrow> string) \<Rightarrow> bool \<Rightarrow> string \<Rightarrow> string \<Rightarrow> AuthUser option \<Rightarrow> bool
     \<Rightarrow> BusinessContextHook \<Rightarrow> string option" where
  "ProtectedRoute_context enc requireBusinessContext redirectTo pathname usr authLoading hook =
     (let bid = (if requireBusinessContext then hk_businessId hook else None);
          isBusinessLoading = (if requireBusinessContext then hk_isLoading hook else False);
          businessError = (if requireBusinessContext then hk_error hook else None) in
      if authLoading \<or> (requireBusinessContext \<and> isBusinessLoading) then None
      else if usr = None then Some (redirectTo @ ''?returnUrl='' @ enc pathname)
      else if requireBusinessContext then
        (if truthy businessError then
           (if businessError = Some ''TIMEOUT'' then Some ''/register/business?reason=timeout''
            else Some ''/register/business?reason=error'')
         else if \<not> truthy bid then Some ''/register/business?reason=no-business''
         else None)
      else None)"

text \<open>
  The effect of the route guard that asks the resolver itself (\<^verbatim>\<open>ProtectedRoute\<close> on
  \<^verbatim>\<open>@/lib/auth-provider\<close>): a falsy business id is turned into the rejection
  \<^verbatim>\<open>new Error('No business found')\<close>, and the \<^verbatim>\<open>catch\<close> handler reads
  \<^verbatim>\<open>error.message\<close> (first to log it, then to compare it): it is \<^verbatim>\<open>undefined\<close> for a
  value without that property, and reading it throws when the handler was given \<^verbatim>\<open>null\<close>
  or \<^verbatim>\<open>undefined\<close>, so that nothing is pushed.
\<close>

definition business_failure_redirect :: "thrown \<Rightarrow> string option" where
  "business_failure_redirect err =
     (case err of
        Nullish \<Rightarrow> None
      | NonError \<Rightarrow> Some ''/register/business?reason=error''
      | ErrorObj m \<Rightarrow>
          (if m = ''TIMEOUT'' then Some ''/register/business?reason=timeout''
           else if m = ''No business found'' then Some ''/register/business?reason=no-business''
           else Some ''/register/business?reason=error''))"

definition ProtectedRoute ::
  "(string \<Rightarrow> string) \<Rightarrow> bool \<Rightarrow> string \<Rightarrow> string \<Rightarrow> AuthUser option \<Rightarrow> bool
     \<Rightarrow> (string option) promise \<Rightarrow> string option" where
  "ProtectedRoute enc requireBusinessContext redirectTo pathname usr authLoading outcome =
     (if authLoading then None
      else if usr = None then Some (redirectTo @ ''?returnUrl='' @ enc pathname)
      else if requireBusinessContext then
        (case outcome of
           Pending \<Rightarrow> None
         | Fulfilled bid \<Rightarrow>
             (if truthy bid then None
              else business_failure_redirect (ErrorObj ''No business found''))
         | Rejected err \<Rightarrow> business_failure_redirect err)
      else None)"

section \<open>Sample inputs\<close>

text \<open>A browser without the session marker and one with the gateway's auth cookie; a
  live session of the gateway; a user.\<close>

definition no_marker :: Browser where
  "no_marker = \<lparr>has_window = True, document_cookie = Some ''theme=dark; lang=es'',
                 local_token = Some None\<rparr>"

definition with_marker :: Browser where
  "with_marker = \<lparr>has_window = True,
                   document_cookie = Some ''theme=dark; sb-abc-auth-token=xyz'',
                   local_token = Some None\<rparr>"

definition gw_user1 :: GwUser where
  "gw_user1 = \<lparr>gw_id = ''u1'', gw_email = Some ''a@b.com'', gw_meta_name = None,
                gw_meta_business_id = None\<rparr>"

definition live_session :: "(Session option) GwResponse promise" where
  "live_session = Fulfilled \<lparr>gw_data = Some \<lparr>session_user = gw_user1\<rparr>, gw_error = None\<rparr>"

definition no_session :: "(Session option) GwResponse promise" where
  "no_session = Fulfilled \<lparr>gw_data = None, gw_error = None\<rparr>"

definition user1 :: AuthUser where
  "user1 = \<lparr>user_id = ''u1'', user_email = ''a@b.com'', user_name = None,
             user_businessId = None\<rparr>"

definition invalid_credentials :: "UserSession GwResponse promise" where
  "invalid_credentials =
     Fulfilled \<lparr>gw_data = \<lparr>us_user = None, us_session = None\<rparr>,
                gw_error = Some \<lparr>gw_message = ''Invalid login credentials'',
                                 gw_status = Some 400\<rparr>\<rparr>"

definition sign_in_ok :: "UserSession GwResponse promise" where
  "sign_in_ok =
     Fulfilled \<lparr>gw_data = \<lparr>us_user = Some gw_user1, us_session = Some \<lparr>session_user = gw_user1\<rparr>\<rparr>,
                gw_error = None\<rparr>"

text \<open>A run of two actions: initialisation from a live session, then a sign-out in which
  the resolver's calls complete and the gateway acknowledges after 100 ms.\<close>

definition sign_out_run :: "Action list" where
  "sign_out_run =
     [Initialize with_marker live_session,
      SignOut (Fulfilled ()) (Fulfilled ()) (Fulfilled ()) (100, Fulfilled None)]"

text \<open>The store signed in from a live session and given the business id \<^verbatim>\<open>b1\<close>, which
  is then in the cache too; the context provider signed in.\<close>

definition signed_in_world :: World where
  "signed_in_world =
     run_all [Initialize with_marker live_session,
              SetBusinessContext ''b1'' (Fulfilled \<lparr>sc_success = True, sc_error = None\<rparr>)]
       initial_world"

definition context_signed_in :: ContextState where
  "context_signed_in = \<lparr>cx_user = Some user1, cx_isLoading = False, cx_isInitialized = True\<rparr>"


section \<open>The state invariant\<close>

text \<open>
  What holds of every state the store is ever in: there is a user exactly in the statuses
  \<^verbatim>\<open>authenticated\<close> and \<^verbatim>\<open>signing-out\<close> (the two variants of the \<^verbatim>\<open>AuthState\<close> type
  declared with \<^verbatim>\<open>user: AuthUser\<close>), and \<^verbatim>\<open>isLoading\<close> is true exactly in
  \<^verbatim>\<open>initializing\<close>, \<^verbatim>\<open>authenticating\<close> and \<^verbatim>\<open>signing-out\<close>.
\<close>

definition state_ok :: "AuthState \<Rightarrow> bool" where
  "state_ok s =
     (((user s \<noteq> None) = (status s = Authenticated \<or> status s = SigningOut))
    \<and> (isLoading s = (status s = Initializing \<or> status s = Authenticating \<or> status s = SigningOut)))"

definition world_ok :: "World \<Rightarrow> bool" where
  "world_ok w = (state_ok (store w) \<and> list_all state_ok (writes w))"

section \<open>Properties\<close>

subsection \<open>The sample inputs, the timer race, the frame of the facade\<close>

lemma no_marker_negative: "\<not> isLikelyAuthenticated no_marker"
  by (simp add: no_marker_def isLikelyAuthenticated_def str_startsWith_def str_trim_def
      js_whitespace_def)

lemma with_marker_positive: "isLikelyAuthenticated with_marker"
  by (simp add: with_marker_def isLikelyAuthenticated_def str_startsWith_def str_trim_def
      js_whitespace_def)

lemma race_timeout_settles: "race_timeout limit msg tp \<noteq> Pending"
proof (cases tp)
  case (Pair t p)
  then show ?thesis by (cases p) simp_all
qed


lemma race_timeout_early: "t < limit \<Longrightarrow> p \<noteq> Pending \<Longrightarrow> race_timeout limit msg (t, p) = p"
  by (cases p) simp_all

lemma auth_signOut_settles: "c \<noteq> Pending \<Longrightarrow> snd (auth_signOut c tp w) \<noteq> Pending"
  using race_timeout_settles [of 2000 "''Supabase signOut timeout''" tp]
  by (simp add: auth_signOut_def Let_def split: promise.splits option.splits)

lemma auth_signOut_cache:
  "cache (fst (auth_signOut c tp w)) = (if c = Fulfilled () then None else cache w)"
  by (simp add: auth_signOut_def Let_def bc_clearBusinessContext_def gateway_call_def
      split: promise.splits option.splits)

lemma auth_signOut_store:
  "store (fst (auth_signOut c tp w)) = store w" "writes (fst (auth_signOut c tp w)) = writes w"
  by (simp_all add: auth_signOut_def Let_def bc_clearBusinessContext_def gateway_call_def
      split: promise.splits option.splits)

text \<open>On the positive branch of the marker check the session query is issued.\<close>

lemma initialize_marker_calls:
  "isLikelyAuthenticated env \<Longrightarrow> calls (fst (initialize env p w)) = calls w @ [CallGetSession]"
  by (auto simp: initialize_def auth_getSession_def Let_def set_store_def gateway_call_def
       auth_onAuthStateChange_def split: promise.splits option.splits)

subsection \<open>Every action preserves the state invariant\<close>

lemma world_ok_set_store: "world_ok w \<Longrightarrow> state_ok s \<Longrightarrow> world_ok (set_store s w)"
  by (simp add: world_ok_def set_store_def)

lemma world_ok_clear: "world_ok (bc_clearBusinessContext w) = world_ok w"
  by (simp add: world_ok_def bc_clearBusinessContext_def)

lemma world_ok_setbc: "world_ok (bc_setBusinessContext b w) = world_ok w"
  by (simp add: world_ok_def bc_setBusinessContext_def)

lemma world_ok_call: "world_ok (gateway_call c w) = world_ok w"
  by (simp add: world_ok_def gateway_call_def)

lemma world_ok_listen: "world_ok (auth_onAuthStateChange w) = world_ok w"
  by (simp add: world_ok_def auth_onAuthStateChange_def)

lemmas world_ok_frame = world_ok_clear world_ok_setbc world_ok_call world_ok_listen

lemma state_ok_unauth:
  "state_ok \<lparr>status = Unauthenticated, user = None, businessId = b, error = e, isLoading = False\<rparr>"
  by (simp add: state_ok_def)

lemma state_ok_auth:
  "state_ok \<lparr>status = Authenticated, user = Some u, businessId = b, error = e, isLoading = False\<rparr>"
  by (simp add: state_ok_def)

lemma state_ok_authenticating:
  "state_ok \<lparr>status = Authenticating, user = None, businessId = b, error = e, isLoading = True\<rparr>"
  by (simp add: state_ok_def)

lemmas state_ok_written = state_ok_unauth state_ok_auth state_ok_authenticating

lemma world_ok_initialize: "world_ok w \<Longrightarrow> world_ok (fst (initialize env p w))"
  by (auto simp: initialize_def auth_getSession_def Let_def world_ok_set_store world_ok_frame
      state_ok_written split: promise.splits option.splits prod.splits)

lemma world_ok_begin: "world_ok w \<Longrightarrow> world_ok (begin_signing_out w)"
  by (auto simp: begin_signing_out_def world_ok_def set_store_def state_ok_def)

lemma world_ok_signIn: "world_ok w \<Longrightarrow> world_ok (fst (signIn email password p sbc w))"
  by (auto simp: signIn_def auth_signIn_def Let_def world_ok_set_store world_ok_frame
      state_ok_written split: promise.splits option.splits prod.splits if_splits)

lemma world_ok_signUp: "world_ok w \<Longrightarrow> world_ok (fst (signUp email password p w))"
  by (auto simp: signUp_def auth_signUp_def Let_def world_ok_set_store world_ok_frame
      state_ok_written split: promise.splits option.splits prod.splits if_splits)

lemma world_ok_signOut: "world_ok w \<Longrightarrow> world_ok (fst (signOut c1 c2 c3 tp w))"
  by (auto simp: signOut_def auth_signOut_def signOut_cleanup_def Let_def world_ok_set_store
      world_ok_begin world_ok_frame state_ok_written
      split: promise.splits option.splits prod.splits if_splits)

lemma world_ok_enhancedSignOut:
  "world_ok w \<Longrightarrow> world_ok (fst (enhancedSignOut config elo c w))"
  by (auto simp: enhancedSignOut_def enhancedSignOut_cleanup_def auth_enhancedSignOut_def Let_def
      world_ok_set_store
      world_ok_begin world_ok_frame state_ok_written
      split: promise.splits option.splits prod.splits if_splits)

lemma world_ok_refreshSession: "world_ok w \<Longrightarrow> world_ok (fst (refreshSession p w))"
  by (auto simp: refreshSession_def auth_getSession_def Let_def world_ok_set_store
      world_ok_frame state_ok_written split: promise.splits option.splits prod.splits if_splits)

lemma world_ok_setBusinessContext: "world_ok w \<Longrightarrow> world_ok (fst (setBusinessContext b sbc w))"
  by (auto simp: setBusinessContext_def Let_def world_ok_def set_store_def state_ok_def
      bc_setBusinessContext_def split: promise.splits option.splits prod.splits if_splits)

lemma world_ok_callback: "world_ok w \<Longrightarrow> world_ok (change_callback au w)"
  by (auto simp: change_callback_def Let_def world_ok_set_store world_ok_frame state_ok_written
      split: option.splits)

lemma world_ok_deliver: "world_ok w \<Longrightarrow> world_ok (deliver_change session sbc w)"
  by (auto simp: deliver_change_def auth_change_event_def Let_def world_ok_callback world_ok_frame
      split: promise.splits option.splits prod.splits if_splits)

lemma world_ok_funpow: "world_ok w \<Longrightarrow> world_ok (((deliver_change session sbc) ^^ n) w)"
  by (induction n) (simp_all add: world_ok_deliver)

lemma world_ok_internal:
  "world_ok w \<Longrightarrow> world_ok (setUnauthenticated_internal e w)"
  "world_ok w \<Longrightarrow> world_ok (setAuthenticated_internal u b w)"
  by (simp_all add: setUnauthenticated_internal_def setAuthenticated_internal_def
      world_ok_set_store state_ok_written)

lemma world_ok_run: "world_ok w \<Longrightarrow> world_ok (run a w)"
  by (cases a) (simp_all add: world_ok_initialize world_ok_signIn world_ok_signUp world_ok_signOut
      world_ok_enhancedSignOut world_ok_refreshSession world_ok_setBusinessContext world_ok_funpow
      world_ok_internal)

lemma world_ok_run_all: "world_ok w \<Longrightarrow> world_ok (run_all as w)"
  by (induction as arbitrary: w) (simp_all add: world_ok_run)

lemma world_ok_initial: "world_ok initial_world"
  by (simp add: world_ok_def initial_world_def initial_state_def state_ok_def)

text \<open>The states of the sample run.\<close>

lemma visited_sign_out_run:
  "visited sign_out_run =
     [initial_state,
      \<lparr>status = Authenticated, user = Some user1, businessId = None, error = None, isLoading = False\<rparr>,
      \<lparr>status = SigningOut, user = Some user1, businessId = None, error = None, isLoading = True\<rparr>,
      \<lparr>status = Unauthenticated, user = None, businessId = None, error = None, isLoading = False\<rparr>]"
  using with_marker_positive
  by (simp add: visited_def sign_out_run_def signOut_def auth_signOut_def Let_def initialize_def
        auth_getSession_def live_session_def set_store_def begin_signing_out_def
        bc_clearBusinessContext_def gateway_call_def auth_onAuthStateChange_def
        bc_getCurrentBusinessId_def initial_world_def session_authUser_def gw_user1_def user1_def
        or_empty_def or_undefined_def)

text \<open>The signed-in sample world.\<close>

lemma signed_in_world_fields:
  "status (store signed_in_world) = Authenticated"
  "user (store signed_in_world) = Some (user1\<lparr>user_businessId := Some ''b1''\<rparr>)"
  "cache signed_in_world = Some ''b1''"
  using with_marker_positive
  by (simp_all add: signed_in_world_def initialize_def auth_getSession_def live_session_def
        setBusinessContext_def Let_def set_store_def gateway_call_def auth_onAuthStateChange_def
        bc_getCurrentBusinessId_def bc_setBusinessContext_def initial_world_def
        session_authUser_def gw_user1_def user1_def or_empty_def or_undefined_def)

subsection \<open>The store's sign-out and the resolver\<close>

text \<open>\<^verbatim>\<open>signOut\<close> settles when the three \<^verbatim>\<open>clearBusinessContext\<close> calls do: the gateway
  call is bounded by the facade's timer.\<close>

lemma signOut_settles:
  assumes "c1 \<noteq> Pending" "c2 \<noteq> Pending" "c3 \<noteq> Pending"
  shows "snd (signOut c1 c2 c3 tp w) \<noteq> Pending"
proof -
  obtain w3 r where f: "auth_signOut c2 tp (bc_clearBusinessContext (begin_signing_out w)) = (w3, r)"
    by (cases "auth_signOut c2 tp (bc_clearBusinessContext (begin_signing_out w))")
  have "r \<noteq> Pending"
    using auth_signOut_settles [OF assms(2), of tp "bc_clearBusinessContext (begin_signing_out w)"] f
    by simp
  then show ?thesis
    using assms unfolding signOut_def Let_def f
    by (cases c1; cases c3; cases r) (auto simp: signOut_cleanup_def split: option.splits)
qed

text \<open>When the first \<^verbatim>\<open>clearBusinessContext\<close> and the one of the emergency cleanup both
  reject, the cleanup's \<^verbatim>\<open>set\<close> is skipped: \<^verbatim>\<open>signOut\<close> throws and the state is the one its
  first statement left.\<close>

lemma signOut_both_clears_reject:
  "signOut (Rejected e1) c2 (Rejected e3) tp w = (begin_signing_out w, Rejected e1)"
  by (simp add: signOut_def signOut_cleanup_def Let_def)

subsection \<open>Where the subscription is registered\<close>

text \<open>\<^verbatim>\<open>initialize\<close> registers its change-event callback in the live-session branch and
  in no other.\<close>

lemma initialize_subscribes_iff:
  "listeners (fst (initialize env p w)) =
     (if isLikelyAuthenticated env
         \<and> (\<exists>r s. p = Fulfilled r \<and> gw_error r = None \<and> gw_data r = Some s)
      then Suc (listeners w) else listeners w)"
  by (auto simp: initialize_def auth_getSession_def Let_def set_store_def gateway_call_def
        auth_onAuthStateChange_def split: promise.splits option.splits)

text \<open>The context-based \<^verbatim>\<open>initializeAuth\<close> registers it whenever the session query
  settles, and not on the marker-absent branch; it clears \<^verbatim>\<open>isLoading\<close> on the
  marker-absent branch and, if still mounted, whenever the session query settles.\<close>

lemma initializeAuth_subscribes_iff:
  "listeners (snd (fst (initializeAuth env p mounted (cs, w)))) =
     (if isLikelyAuthenticated env \<and> p \<noteq> Pending then Suc (listeners w) else listeners w)"
  by (auto simp: initializeAuth_def auth_getSession_def Let_def gateway_call_def
        auth_onAuthStateChange_def split: promise.splits option.splits)

lemma initializeAuth_loading:
  "cx_isLoading (fst (fst (initializeAuth env p mounted (cs, w)))) =
     (if \<not> isLikelyAuthenticated env \<or> (p \<noteq> Pending \<and> mounted) then False else cx_isLoading cs)"
  by (auto simp: initializeAuth_def initializeAuth_finally_def auth_getSession_def Let_def
        split: promise.splits option.splits)

subsection \<open>The facade's sign-out, case by case\<close>

text \<open>With the business context cleared: a gateway that answers after the 2000 ms or
  never is reported as success; an error answer that arrives before them is returned; a
  rejection is reported as success whenever it arrives.\<close>

lemma auth_signOut_timeout:
  "p = Pending \<or> 2000 < t \<Longrightarrow> snd (auth_signOut (Fulfilled ()) (t, p) w) = Fulfilled None"
  by (cases p) (auto simp: auth_signOut_def Let_def)

lemma auth_signOut_error_answer:
  "t < 2000 \<Longrightarrow>
   snd (auth_signOut (Fulfilled ()) (t, Fulfilled (Some e)) w)
     = Fulfilled (Some \<lparr>err_message = gw_message e, err_status = gw_status e\<rparr>)"
  by (simp add: auth_signOut_def Let_def)

lemma auth_signOut_rejection:
  "snd (auth_signOut (Fulfilled ()) (t, Rejected err) w) = Fulfilled None"
  by (simp add: auth_signOut_def Let_def)

text \<open>When the resolver's \<^verbatim>\<open>clearBusinessContext\<close> rejects, the outer \<^verbatim>\<open>catch\<close> of
  \<^verbatim>\<open>auth.signOut\<close> reports it, and no sign-out call goes to the gateway.\<close>

lemma auth_signOut_clear_rejects:
  "auth_signOut (Rejected err) tp w
     = (w, Fulfilled (Some \<lparr>err_message = thrown_message ''Logout failed'' err,
                            err_status = Some 500\<rparr>))"
  by (simp add: auth_signOut_def)

subsection \<open>The facade's other operations when the gateway call throws\<close>

lemma facade_thrown_500:
  "snd (auth_signUp email password (Rejected err) w)
     = Fulfilled \<lparr>res_data = \<lparr>us_user = None, us_session = None\<rparr>,
         res_error = Some \<lparr>err_message = thrown_message ''Registration failed'' err, err_status = Some 500\<rparr>\<rparr>"
  "snd (auth_signIn email password (Rejected err) sbc w)
     = Fulfilled \<lparr>res_data = \<lparr>us_user = None, us_session = None\<rparr>,
         res_error = Some \<lparr>err_message = thrown_message ''Login failed'' err, err_status = Some 500\<rparr>\<rparr>"
  "snd (auth_enhancedSignOut config (Rejected err) w)
     = Fulfilled \<lparr>eso_error = Some \<lparr>err_message = thrown_message ''Enhanced logout failed'' err,
                                     err_status = Some 500\<rparr>, eso_cleanupResults = None\<rparr>"
  "snd (auth_getSession (Rejected err) w)
     = Fulfilled \<lparr>res_data = None,
         res_error = Some \<lparr>err_message = thrown_message ''Session retrieval failed'' err, err_status = Some 500\<rparr>\<rparr>"
  "snd (auth_getUser (Rejected err) w)
     = Fulfilled \<lparr>res_data = None,
         res_error = Some \<lparr>err_message = thrown_message ''User retrieval failed'' err, err_status = Some 500\<rparr>\<rparr>"
  "snd (auth_resetPassword email (Rejected err) w)
     = Fulfilled \<lparr>res_data = None,
         res_error = Some \<lparr>err_message = thrown_message ''Password reset failed'' err, err_status = Some 500\<rparr>\<rparr>"
  "snd (auth_updatePassword password (Rejected err) w)
     = Fulfilled \<lparr>res_data = None,
         res_error = Some \<lparr>err_message = thrown_message ''Password update failed'' err, err_status = Some 500\<rparr>\<rparr>"
  "snd (auth_verifyEmail token type (Rejected err) w)
     = Fulfilled \<lparr>res_data = \<lparr>us_user = None, us_session = None\<rparr>,
         res_error = Some \<lparr>err_message = thrown_message ''Email verification failed'' err, err_status = Some 500\<rparr>\<rparr>"
  "snd (auth_resendVerificationEmail email type (Rejected err) w)
     = Fulfilled \<lparr>res_data = None,
         res_error = Some \<lparr>err_message = thrown_message ''Resend email failed'' err, err_status = Some 500\<rparr>\<rparr>"
  by (simp_all add: auth_signUp_def auth_signIn_def auth_enhancedSignOut_def auth_getSession_def
        auth_getUser_def auth_resetPassword_def auth_updatePassword_def auth_verifyEmail_def
        auth_resendVerificationEmail_def Let_def)

text \<open>No operation of the facade throws: none of their promises is rejected, whatever the
  gateway, the resolver or the logout routine does.\<close>

lemma facade_never_rejects:
  "snd (auth_signUp email password p1 w) \<noteq> Rejected e"
  "snd (auth_signIn email password p1 sbc w) \<noteq> Rejected e"
  "snd (auth_signOut c tp w) \<noteq> Rejected e"
  "snd (auth_enhancedSignOut config elo w) \<noteq> Rejected e"
  "snd (auth_getSession p2 w) \<noteq> Rejected e"
  "snd (auth_getUser p3 w) \<noteq> Rejected e"
  "snd (auth_resetPassword email p4 w) \<noteq> Rejected e"
  "snd (auth_updatePassword password p5 w) \<noteq> Rejected e"
  "snd (auth_verifyEmail token type p1 w) \<noteq> Rejected e"
  "snd (auth_resendVerificationEmail email type p6 w) \<noteq> Rejected e"
  by (simp_all add: auth_signUp_def auth_signIn_def auth_signOut_def auth_enhancedSignOut_def
        auth_getSession_def auth_getUser_def auth_resetPassword_def auth_updatePassword_def
        auth_verifyEmail_def auth_resendVerificationEmail_def Let_def
        split: promise.splits option.splits)

subsection \<open>The route guards, case by case\<close>

lemma ProtectedRoute_context_login:
  "\<not> authLoading \<Longrightarrow> \<not> (req \<and> hk_isLoading hook) \<Longrightarrow>
   ProtectedRoute_context enc req redirectTo pathname None authLoading hook
     = Some (redirectTo @ ''?returnUrl='' @ enc pathname)"
  by (auto simp: ProtectedRoute_context_def Let_def)

lemma ProtectedRoute_context_reasons:
  assumes "\<not> authLoading" "\<not> hk_isLoading hook"
  shows "ProtectedRoute_context enc True redirectTo pathname (Some u) authLoading hook =
     (case hk_error hook of
        Some e \<Rightarrow>
          (if e = ''TIMEOUT'' then Some ''/register/business?reason=timeout''
           else if e \<noteq> [] then Some ''/register/business?reason=error''
           else if truthy (hk_businessId hook) then None
           else Some ''/register/business?reason=no-business'')
      | None \<Rightarrow>
          (if truthy (hk_businessId hook) then None
           else Some ''/register/business?reason=no-business''))"
  using assms by (auto simp: ProtectedRoute_context_def Let_def split: option.splits)

lemma ProtectedRoute_reasons:
  "ProtectedRoute enc True redirectTo pathname (Some u) False outcome =
     (case outcome of
        Pending \<Rightarrow> None
      | Fulfilled b \<Rightarrow> (if truthy b then None else Some ''/register/business?reason=no-business'')
      | Rejected err \<Rightarrow>
          (if err = Nullish then None
           else if err = ErrorObj ''TIMEOUT'' then Some ''/register/business?reason=timeout''
           else if err = ErrorObj ''No business found'' then Some ''/register/business?reason=no-business''
           else Some ''/register/business?reason=error''))"
  by (simp add: ProtectedRoute_def business_failure_redirect_def
      split: promise.splits thrown.splits)

lemma ProtectedRoute_login:
  "ProtectedRoute enc req redirectTo pathname None False outcome
     = Some (redirectTo @ ''?returnUrl='' @ enc pathname)"
  by (simp add: ProtectedRoute_def)

subsection \<open>The claims\<close>


text \<open>
  Claim C9. If the local marker check \<^verbatim>\<open>isLikelyAuthenticated\<close> is negative, \<^verbatim>\<open>initialize\<close>
  resolves with status \<^verbatim>\<open>unauthenticated\<close>, no user and no error, and no call to the gateway
  is issued: the list of network calls is the one before the run, whatever the gateway
  would have answered.
\<close>

theorem initialize_no_marker:
  assumes "\<not> isLikelyAuthenticated env"
  shows "snd (initialize env p w) = Fulfilled ()
       \<and> status (store (fst (initialize env p w))) = Unauthenticated
       \<and> user (store (fst (initialize env p w))) = None
       \<and> error (store (fst (initialize env p w))) = None
       \<and> calls (fst (initialize env p w)) = calls w"
  using assms by (simp add: initialize_def set_store_def)

theorem initialize_no_marker_witness:
  "\<not> isLikelyAuthenticated no_marker
   \<and> snd (initialize no_marker live_session initial_world) = Fulfilled ()
   \<and> status (store (fst (initialize no_marker live_session initial_world))) = Unauthenticated
   \<and> user (store (fst (initialize no_marker live_session initial_world))) = None
   \<and> error (store (fst (initialize no_marker live_session initial_world))) = None
   \<and> calls (fst (initialize no_marker live_session initial_world)) = []"
  using initialize_no_marker [OF no_marker_negative, of live_session initial_world]
    no_marker_negative
  by (simp add: initial_world_def)

text \<open>
  Claim C2, as amended. After the store's \<^verbatim>\<open>signOut\<close> has settled, by returning or by
  throwing, the status is \<^verbatim>\<open>unauthenticated\<close>, there is no user, and the cached business
  id is empty, whenever the resolver's \<^verbatim>\<open>clearBusinessContext\<close> has completed at the start
  of \<^verbatim>\<open>signOut\<close> or in its emergency cleanup. The \<^verbatim>\<open>signOut\<close> of the context-based provider
  has no status; it clears the user itself only on the way that throws (when the cleanup's
  \<^verbatim>\<open>clearBusinessContext\<close> has completed). When it returns normally the cached business
  id is empty and the user is the one it was called with, left to the change-event
  listener.
\<close>

theorem signOut_postcondition:
  "(snd (signOut c1 c2 c3 tp w) \<noteq> Pending \<and> (c1 = Fulfilled () \<or> c3 = Fulfilled ()) \<longrightarrow>
        status (store (fst (signOut c1 c2 c3 tp w))) = Unauthenticated
      \<and> user (store (fst (signOut c1 c2 c3 tp w))) = None
      \<and> cache (fst (signOut c1 c2 c3 tp w)) = None)
 \<and> (snd (signOut_context c1 c2 c3 tp cw) = Fulfilled () \<longrightarrow>
        cx_user (fst (fst (signOut_context c1 c2 c3 tp cw))) = cx_user (fst cw)
      \<and> cache (snd (fst (signOut_context c1 c2 c3 tp cw))) = None)
 \<and> (snd (signOut_context c1 c2 c3 tp cw) = Rejected err \<and> c3 = Fulfilled () \<longrightarrow>
        cx_user (fst (fst (signOut_context c1 c2 c3 tp cw))) = None
      \<and> cache (snd (fst (signOut_context c1 c2 c3 tp cw))) = None)"
proof (intro conjI impI)
  assume a: "snd (signOut c1 c2 c3 tp w) \<noteq> Pending \<and> (c1 = Fulfilled () \<or> c3 = Fulfilled ())"
  obtain w3 r where f: "auth_signOut c2 tp (bc_clearBusinessContext (begin_signing_out w)) = (w3, r)"
    by (cases "auth_signOut c2 tp (bc_clearBusinessContext (begin_signing_out w))")
  have c: "cache w3 = None"
    using auth_signOut_cache [of c2 tp "bc_clearBusinessContext (begin_signing_out w)"] f
    by (simp add: bc_clearBusinessContext_def)
  have nr: "r \<noteq> Rejected e" for e
    using facade_never_rejects(3) [of c2 tp "bc_clearBusinessContext (begin_signing_out w)" e] f
    by simp
  have post:
    "status (store (fst (signOut c1 c2 c3 tp w))) = Unauthenticated
     \<and> user (store (fst (signOut c1 c2 c3 tp w))) = None
     \<and> cache (fst (signOut c1 c2 c3 tp w)) = None"
    using a c nr unfolding signOut_def Let_def f
    by (cases c1; cases c3; cases r)
       (auto simp: signOut_cleanup_def set_store_def bc_clearBusinessContext_def
             split: option.splits)
  from post show "status (store (fst (signOut c1 c2 c3 tp w))) = Unauthenticated" by simp
  from post show "user (store (fst (signOut c1 c2 c3 tp w))) = None" by simp
  from post show "cache (fst (signOut c1 c2 c3 tp w)) = None" by simp
next
  assume a: "snd (signOut_context c1 c2 c3 tp cw) = Fulfilled ()"
  obtain w2 r where f: "auth_signOut c2 tp (bc_clearBusinessContext (snd cw)) = (w2, r)"
    by (cases "auth_signOut c2 tp (bc_clearBusinessContext (snd cw))")
  have c: "cache w2 = None"
    using auth_signOut_cache [of c2 tp "bc_clearBusinessContext (snd cw)"] f
    by (simp add: bc_clearBusinessContext_def)
  have post:
    "cx_user (fst (fst (signOut_context c1 c2 c3 tp cw))) = cx_user (fst cw)
     \<and> cache (snd (fst (signOut_context c1 c2 c3 tp cw))) = None"
    using a c unfolding signOut_context_def Let_def f
    by (cases c1; cases c3; cases r)
       (auto simp: signOut_context_cleanup_def split: option.splits)
  from post show "cx_user (fst (fst (signOut_context c1 c2 c3 tp cw))) = cx_user (fst cw)"
    by simp
  from post show "cache (snd (fst (signOut_context c1 c2 c3 tp cw))) = None" by simp
next
  assume a: "snd (signOut_context c1 c2 c3 tp cw) = Rejected err \<and> c3 = Fulfilled ()"
  obtain w2 r where f: "auth_signOut c2 tp (bc_clearBusinessContext (snd cw)) = (w2, r)"
    by (cases "auth_signOut c2 tp (bc_clearBusinessContext (snd cw))")
  have post:
    "cx_user (fst (fst (signOut_context c1 c2 c3 tp cw))) = None
     \<and> cache (snd (fst (signOut_context c1 c2 c3 tp cw))) = None"
    using a unfolding signOut_context_def Let_def f
    by (cases c1; cases r)
       (auto simp: signOut_context_cleanup_def bc_clearBusinessContext_def
             split: option.splits)
  from post show "cx_user (fst (fst (signOut_context c1 c2 c3 tp cw))) = None" by simp
  from post show "cache (snd (fst (signOut_context c1 c2 c3 tp cw))) = None" by simp
qed

text \<open>
  Instances. From the signed-in store, the first \<^verbatim>\<open>clearBusinessContext\<close> rejects and the
  emergency cleanup does the work: \<^verbatim>\<open>signOut\<close> throws what it caught and the state is
  \<^verbatim>\<open>unauthenticated\<close>. For the context provider, a gateway that never answers (the facade
  reports success after its 2000 ms) and a gateway that answers with an error.
\<close>

theorem signOut_postcondition_witness:
  "snd (signOut (Rejected (ErrorObj ''clear failed'')) (Fulfilled ()) (Fulfilled ())
          (100, Fulfilled None) signed_in_world) = Rejected (ErrorObj ''clear failed'')
   \<and> status (store signed_in_world) = Authenticated
   \<and> cache signed_in_world = Some ''b1''
   \<and> status (store (fst (signOut (Rejected (ErrorObj ''clear failed'')) (Fulfilled ()) (Fulfilled ())
          (100, Fulfilled None) signed_in_world))) = Unauthenticated
   \<and> user (store (fst (signOut (Rejected (ErrorObj ''clear failed'')) (Fulfilled ()) (Fulfilled ())
          (100, Fulfilled None) signed_in_world))) = None
   \<and> cache (fst (signOut (Rejected (ErrorObj ''clear failed'')) (Fulfilled ()) (Fulfilled ())
          (100, Fulfilled None) signed_in_world)) = None
   \<and> snd (signOut_context (Fulfilled ()) (Fulfilled ()) (Fulfilled ()) (0, Pending)
          (context_signed_in, signed_in_world)) = Fulfilled ()
   \<and> cx_user (fst (fst (signOut_context (Fulfilled ()) (Fulfilled ()) (Fulfilled ()) (0, Pending)
          (context_signed_in, signed_in_world)))) = Some user1
   \<and> cache (snd (fst (signOut_context (Fulfilled ()) (Fulfilled ()) (Fulfilled ()) (0, Pending)
          (context_signed_in, signed_in_world)))) = None
   \<and> snd (signOut_context (Fulfilled ()) (Fulfilled ()) (Fulfilled ())
          (100, Fulfilled (Some \<lparr>gw_message = ''Network request failed'', gw_status = Some 503\<rparr>))
          (context_signed_in, signed_in_world)) = Rejected (ErrorObj ''Network request failed'')
   \<and> cx_user (fst (fst (signOut_context (Fulfilled ()) (Fulfilled ()) (Fulfilled ())
          (100, Fulfilled (Some \<lparr>gw_message = ''Network request failed'', gw_status = Some 503\<rparr>))
          (context_signed_in, signed_in_world)))) = None"
proof -
  have r1: "snd (signOut (Rejected (ErrorObj ''clear failed'')) (Fulfilled ()) (Fulfilled ())
          (100, Fulfilled None) signed_in_world) = Rejected (ErrorObj ''clear failed'')"
    by (simp add: signOut_def signOut_cleanup_def Let_def)
  have r2: "snd (signOut_context (Fulfilled ()) (Fulfilled ()) (Fulfilled ()) (0, Pending)
          (context_signed_in, signed_in_world)) = Fulfilled ()"
    by (simp add: signOut_context_def auth_signOut_def Let_def)
  have r3: "snd (signOut_context (Fulfilled ()) (Fulfilled ()) (Fulfilled ())
          (100, Fulfilled (Some \<lparr>gw_message = ''Network request failed'', gw_status = Some 503\<rparr>))
          (context_signed_in, signed_in_world)) = Rejected (ErrorObj ''Network request failed'')"
    by (simp add: signOut_context_def signOut_context_cleanup_def auth_signOut_def Let_def)
  show ?thesis
    using r1 r2 r3 signed_in_world_fields
      signOut_postcondition
        [of "Rejected (ErrorObj ''clear failed'')" "Fulfilled ()" "Fulfilled ()"
            "(100, Fulfilled None)" signed_in_world
            "(context_signed_in, signed_in_world)" NonError]
      signOut_postcondition
        [of "Fulfilled ()" "Fulfilled ()" "Fulfilled ()" "(0, Pending)" signed_in_world
            "(context_signed_in, signed_in_world)" NonError]
      signOut_postcondition
        [of "Fulfilled ()" "Fulfilled ()" "Fulfilled ()"
            "(100, Fulfilled (Some \<lparr>gw_message = ''Network request failed'', gw_status = Some 503\<rparr>))"
            signed_in_world "(context_signed_in, signed_in_world)"
            "ErrorObj ''Network request failed''"]
    by (simp add: context_signed_in_def)
qed

text \<open>
  Claim C2 as stated (after \<^verbatim>\<open>signOut\<close> resolves there is no user) fails for the
  \<^verbatim>\<open>signOut\<close> of the context-based provider: when the gateway does not answer, the facade
  reports success after its timeout, \<^verbatim>\<open>signOut\<close> returns normally, and the user is still
  the signed-in one.
\<close>

theorem signOut_context_keeps_user_counterexample:
  "snd (signOut_context (Fulfilled ()) (Fulfilled ()) (Fulfilled ()) (0, Pending)
          (context_signed_in, signed_in_world)) = Fulfilled ()
   \<and> cx_user (fst (fst (signOut_context (Fulfilled ()) (Fulfilled ()) (Fulfilled ()) (0, Pending)
          (context_signed_in, signed_in_world)))) = Some user1"
  by (simp add: signOut_context_def auth_signOut_def Let_def context_signed_in_def)

text \<open>
  Claim C1, as amended. In every state the store is in along every sequence of actions
  (\<^verbatim>\<open>initialize\<close>, \<^verbatim>\<open>signIn\<close>, \<^verbatim>\<open>signUp\<close>, \<^verbatim>\<open>signOut\<close>, \<^verbatim>\<open>enhancedSignOut\<close>,
  \<^verbatim>\<open>refreshSession\<close>, \<^verbatim>\<open>setBusinessContext\<close>, change events, the two internal
  transitions), whatever the environment answers: there is a user if and only if the
  status is \<^verbatim>\<open>authenticated\<close> or \<^verbatim>\<open>signing-out\<close>, and \<^verbatim>\<open>isLoading\<close> is true if and only if
  the status is \<^verbatim>\<open>initializing\<close>, \<^verbatim>\<open>authenticating\<close> or \<^verbatim>\<open>signing-out\<close>.
\<close>

theorem store_invariant: "\<forall>s \<in> set (visited as).
     ((user s \<noteq> None) = (status s = Authenticated \<or> status s = SigningOut))
   \<and> (isLoading s = (status s = Initializing \<or> status s = Authenticating \<or> status s = SigningOut))"
proof -
  have "world_ok (run_all as initial_world)"
    by (rule world_ok_run_all [OF world_ok_initial])
  then have "list_all state_ok (writes (run_all as initial_world))"
    by (simp add: world_ok_def)
  moreover have "state_ok initial_state"
    by (simp add: initial_state_def state_ok_def)
  ultimately have "list_all state_ok (visited as)"
    by (simp add: visited_def)
  then show ?thesis
    by (simp add: list_all_iff state_ok_def)
qed

text \<open>An instance: the third state of the sample run is the \<^verbatim>\<open>signing-out\<close> state, with
  the user still there and \<^verbatim>\<open>isLoading\<close> true; the fourth is \<^verbatim>\<open>unauthenticated\<close>.\<close>

theorem store_invariant_witness:
  "visited sign_out_run ! 2 \<in> set (visited sign_out_run)
   \<and> status (visited sign_out_run ! 2) = SigningOut
   \<and> user (visited sign_out_run ! 2) = Some user1
   \<and> isLoading (visited sign_out_run ! 2)
   \<and> status (visited sign_out_run ! 3) = Unauthenticated
   \<and> user (visited sign_out_run ! 3) = None
   \<and> \<not> isLoading (visited sign_out_run ! 3)"
  using store_invariant [of sign_out_run]
  by (simp add: visited_sign_out_run)

text \<open>
  Claim C1 as stated ("a user if and only if the status is \<^verbatim>\<open>authenticated\<close>") fails in
  the \<^verbatim>\<open>signing-out\<close> state that \<^verbatim>\<open>signOut\<close> writes first: the status is no longer
  \<^verbatim>\<open>authenticated\<close> and the user is still there.
\<close>

theorem signing_out_keeps_user_counterexample:
  "status (visited sign_out_run ! 2) = SigningOut \<and> user (visited sign_out_run ! 2) \<noteq> None"
  by (simp add: visited_sign_out_run)

text \<open>
  Claim C6, as amended. \<^verbatim>\<open>initialize\<close> has no timeout of its own. Whenever the marker
  check is negative or the gateway's session query settles (with a session, without one,
  with an error, or by throwing), \<^verbatim>\<open>initialize\<close> resolves, it has written the state
  exactly once, and \<^verbatim>\<open>isLoading\<close> is false in the state written. When the marker check is
  positive and the session query never settles, \<^verbatim>\<open>initialize\<close> never settles and writes
  nothing, so \<^verbatim>\<open>isLoading\<close> stays as it was.
\<close>

theorem initialize_settles_once:
  "(isLikelyAuthenticated env \<and> p = Pending \<longrightarrow>
       snd (initialize env p w) = Pending
     \<and> store (fst (initialize env p w)) = store w
     \<and> writes (fst (initialize env p w)) = writes w)
 \<and> (\<not> (isLikelyAuthenticated env \<and> p = Pending) \<longrightarrow>
       snd (initialize env p w) = Fulfilled ()
     \<and> writes (fst (initialize env p w)) = writes w @ [store (fst (initialize env p w))]
     \<and> \<not> isLoading (store (fst (initialize env p w))))"
  by (auto simp: initialize_def auth_getSession_def Let_def set_store_def gateway_call_def
        auth_onAuthStateChange_def split: promise.splits option.splits)

theorem initialize_settles_once_witness:
  "isLikelyAuthenticated with_marker
   \<and> snd (initialize with_marker Pending initial_world) = Pending
   \<and> store (fst (initialize with_marker Pending initial_world)) = initial_state
   \<and> snd (initialize with_marker live_session initial_world) = Fulfilled ()
   \<and> writes (fst (initialize with_marker live_session initial_world))
       = [store (fst (initialize with_marker live_session initial_world))]
   \<and> \<not> isLoading (store (fst (initialize with_marker live_session initial_world)))"
  using initialize_settles_once [of with_marker Pending initial_world]
    initialize_settles_once [of with_marker live_session initial_world]
    with_marker_positive
  by (simp add: initial_world_def live_session_def)

text \<open>
  Claim C6 as stated ("always terminates with \<^verbatim>\<open>isLoading == false\<close>", also on a timeout)
  fails when the session query hangs: from the initial state, \<^verbatim>\<open>initialize\<close> stays pending
  and \<^verbatim>\<open>isLoading\<close> is still true.
\<close>

theorem initialize_hangs_counterexample:
  "snd (initialize with_marker Pending initial_world) = Pending
   \<and> isLoading (store (fst (initialize with_marker Pending initial_world)))"
  using with_marker_positive
  by (simp add: initialize_def auth_getSession_def Let_def gateway_call_def initial_world_def
        initial_state_def)

text \<open>
  Claim C7. When the gateway fails a sign-in or a sign-up, by answering with an error or
  by throwing, the state machine ends in \<^verbatim>\<open>unauthenticated\<close> with an error in its state,
  and the action returns that same error: the gateway's message and status for an error
  answer, the thrown message (or the facade's default) and status 500 for a thrown value.
\<close>

theorem signIn_signUp_dual_reporting:
  "(p = Fulfilled r \<and> gw_error r = Some ge \<longrightarrow>
       snd (signIn email password p sbc w)
         = Fulfilled (Some \<lparr>err_message = gw_message ge, err_status = gw_status ge\<rparr>)
     \<and> store (fst (signIn email password p sbc w))
         = \<lparr>status = Unauthenticated, user = None, businessId = None,
            error = Some \<lparr>err_message = gw_message ge, err_status = gw_status ge\<rparr>,
            isLoading = False\<rparr>
     \<and> snd (signUp email password p w)
         = Fulfilled (Some \<lparr>err_message = gw_message ge, err_status = gw_status ge\<rparr>)
     \<and> store (fst (signUp email password p w))
         = \<lparr>status = Unauthenticated, user = None, businessId = None,
            error = Some \<lparr>err_message = gw_message ge, err_status = gw_status ge\<rparr>,
            isLoading = False\<rparr>)
 \<and> (p = Rejected err \<longrightarrow>
       snd (signIn email password p sbc w)
         = Fulfilled (Some \<lparr>err_message = thrown_message ''Login failed'' err, err_status = Some 500\<rparr>)
     \<and> store (fst (signIn email password p sbc w))
         = \<lparr>status = Unauthenticated, user = None, businessId = None,
            error = Some \<lparr>err_message = thrown_message ''Login failed'' err, err_status = Some 500\<rparr>,
            isLoading = False\<rparr>
     \<and> snd (signUp email password p w)
         = Fulfilled (Some \<lparr>err_message = thrown_message ''Registration failed'' err, err_status = Some 500\<rparr>)
     \<and> store (fst (signUp email password p w))
         = \<lparr>status = Unauthenticated, user = None, businessId = None,
            error = Some \<lparr>err_message = thrown_message ''Registration failed'' err, err_status = Some 500\<rparr>,
            isLoading = False\<rparr>)"
  by (simp add: signIn_def signUp_def auth_signIn_def auth_signUp_def Let_def set_store_def
        gateway_call_def)

theorem signIn_signUp_dual_reporting_witness:
  "gw_error \<lparr>gw_data = \<lparr>us_user = None, us_session = None\<rparr>,
             gw_error = Some \<lparr>gw_message = ''Invalid login credentials'', gw_status = Some 400\<rparr>\<rparr>
     = Some \<lparr>gw_message = ''Invalid login credentials'', gw_status = Some 400\<rparr>
   \<and> snd (signIn ''a@b.com'' ''wrong'' invalid_credentials Pending initial_world)
       = Fulfilled (Some \<lparr>err_message = ''Invalid login credentials'', err_status = Some 400\<rparr>)
   \<and> store (fst (signIn ''a@b.com'' ''wrong'' invalid_credentials Pending initial_world))
       = \<lparr>status = Unauthenticated, user = None, businessId = None,
          error = Some \<lparr>err_message = ''Invalid login credentials'', err_status = Some 400\<rparr>,
          isLoading = False\<rparr>
   \<and> snd (signUp ''a@b.com'' ''pw'' (Rejected (ErrorObj ''Failed to fetch'')) initial_world)
       = Fulfilled (Some \<lparr>err_message = ''Failed to fetch'', err_status = Some 500\<rparr>)
   \<and> status (store (fst (signUp ''a@b.com'' ''pw'' (Rejected (ErrorObj ''Failed to fetch'')) initial_world)))
       = Unauthenticated"
  using signIn_signUp_dual_reporting
      [of invalid_credentials
          "\<lparr>gw_data = \<lparr>us_user = None, us_session = None\<rparr>,
            gw_error = Some \<lparr>gw_message = ''Invalid login credentials'', gw_status = Some 400\<rparr>\<rparr>"
          "\<lparr>gw_message = ''Invalid login credentials'', gw_status = Some 400\<rparr>"
          "''a@b.com''" "''wrong''" Pending initial_world NonError]
    signIn_signUp_dual_reporting
      [of "Rejected (ErrorObj ''Failed to fetch'')"
          "\<lparr>gw_data = \<lparr>us_user = None, us_session = None\<rparr>, gw_error = None\<rparr>"
          "\<lparr>gw_message = [], gw_status = None\<rparr>"
          "''a@b.com''" "''pw''" Pending initial_world "ErrorObj ''Failed to fetch''"]
  by (simp add: invalid_credentials_def)




text \<open>
  Claim C3 (every run of \<^verbatim>\<open>initialize\<close> registers the change-event subscription before
  it settles) against the code. With the marker absent, and with the marker present but no
  session, \<^verbatim>\<open>initialize\<close> resolves with no callback registered; only the live-session
  branch registers one; the context-based \<^verbatim>\<open>initializeAuth\<close> returns before its
  subscription on the marker-absent branch as well. After the marker-absent run a
  successful \<^verbatim>\<open>signIn\<close>, which leaves the state update to the listener, and the gateway's
  change event that follows it leave the machine in \<^verbatim>\<open>authenticating\<close>.
\<close>

theorem initialize_without_subscription:
  "snd (initialize no_marker p initial_world) = Fulfilled ()
   \<and> listeners (fst (initialize no_marker p initial_world)) = 0
   \<and> snd (initialize with_marker no_session initial_world) = Fulfilled ()
   \<and> listeners (fst (initialize with_marker no_session initial_world)) = 0
   \<and> listeners (fst (initialize with_marker live_session initial_world)) = 1
   \<and> snd (initializeAuth no_marker p True (context_initial, initial_world)) = Fulfilled ()
   \<and> listeners (snd (fst (initializeAuth no_marker p True (context_initial, initial_world)))) = 0
   \<and> status (store (run_all [Initialize no_marker p,
                               SignIn ''a@b.com'' ''secret'' sign_in_ok Pending,
                               ChangeEvent (Some \<lparr>session_user = gw_user1\<rparr>) Pending]
                        initial_world)) = Authenticating"
  using no_marker_negative with_marker_positive
  by (simp add: initialize_def auth_getSession_def Let_def set_store_def gateway_call_def
        auth_onAuthStateChange_def initial_world_def no_session_def live_session_def
        signIn_def auth_signIn_def sign_in_ok_def gw_user1_def bc_getCurrentBusinessId_def
        initializeAuth_def)

text \<open>
  Claim C5 (every remote sign-out failure other than a timeout is returned as a non-null
  error) against the code. After the local cleanup has completed, a gateway sign-out that
  rejects after 100 ms, well inside the 2000 ms, is caught by the \<^verbatim>\<open>catch (timeoutError)\<close> of the race: the facade returns
  \<^verbatim>\<open>{ error: null }\<close>.
\<close>

theorem auth_signOut_swallows_rejection:
  "snd (auth_signOut (Fulfilled ()) (100, Rejected (ErrorObj ''Failed to fetch'')) w)
     = Fulfilled None
   \<and> cache (fst (auth_signOut (Fulfilled ()) (100, Rejected (ErrorObj ''Failed to fetch'')) w))
     = None"
  by (simp add: auth_signOut_def Let_def bc_clearBusinessContext_def gateway_call_def)

text \<open>
  Claim C10 (every facade operation turns a thrown gateway call into an error result with
  the thrown message and status 500) against the code. It holds of the nine operations of
  \<open>facade_thrown_500\<close>; \<^verbatim>\<open>auth.signOut\<close>, its local cleanup completed, answers the same
  thrown value with
  \<^verbatim>\<open>{ error: null }\<close>, where \<^verbatim>\<open>auth.getSession\<close> reports it.
\<close>

theorem facade_signOut_thrown_not_reported:
  "snd (auth_signOut (Fulfilled ()) (100, Rejected (ErrorObj ''boom'')) w) = Fulfilled None
   \<and> snd (auth_getSession (Rejected (ErrorObj ''boom'')) w)
       = Fulfilled \<lparr>res_data = None,
           res_error = Some \<lparr>err_message = ''boom'', err_status = Some 500\<rparr>\<rparr>"
  by (simp add: auth_signOut_def auth_getSession_def Let_def)

text \<open>
  Claim C8 (the route guard's reason code is \<^verbatim>\<open>reason=error\<close> for every failure that is
  neither a timeout nor a missing tenant) against the code. When the resolver rejects with
  an \<^verbatim>\<open>Error\<close> whose message is empty, the hook stores the empty string as its error;
  the guard that reads the hook tests \<^verbatim>\<open>if (businessError)\<close>, finds it falsy, and
  redirects with \<^verbatim>\<open>reason=no-business\<close>. The guard that asks the resolver itself
  redirects with \<^verbatim>\<open>reason=error\<close> on the same rejection.
\<close>

theorem guard_empty_message_no_business:
  "loadBusinessContext True (Some user1) True (Rejected (ErrorObj [])) hook_initial
     = \<lparr>hk_businessId = None, hk_isLoading = False, hk_error = Some []\<rparr>
   \<and> ProtectedRoute_context enc True ''/login'' ''/dashboard'' (Some user1) False
        (loadBusinessContext True (Some user1) True (Rejected (ErrorObj [])) hook_initial)
       = Some ''/register/business?reason=no-business''
   \<and> ProtectedRoute enc True ''/login'' ''/dashboard'' (Some user1) False (Rejected (ErrorObj []))
       = Some ''/register/business?reason=error''"
  by (simp add: loadBusinessContext_def hook_initial_def ProtectedRoute_context_def
        ProtectedRoute_def business_failure_redirect_def Let_def)

theorem guard_empty_message_no_business_witness:
  "loadBusinessContext True (Some user1) True (Rejected (ErrorObj [])) hook_initial
     = \<lparr>hk_businessId = None, hk_isLoading = False, hk_error = Some []\<rparr>
   \<and> ProtectedRoute_context (\<lambda>s. s) True ''/login'' ''/dashboard'' (Some user1) False
        (loadBusinessContext True (Some user1) True (Rejected (ErrorObj [])) hook_initial)
       = Some ''/register/business?reason=no-business''
   \<and> ProtectedRoute (\<lambda>s. s) True ''/login'' ''/dashboard'' (Some user1) False (Rejected (ErrorObj []))
       = Some ''/register/business?reason=error''"
  by (rule guard_empty_message_no_business [of "\<lambda>s. s"])

end
